theory Spec2Isabelle
  imports Complex_Main
begin

section \<open>Numbers, vectors and names\<close>

text \<open>
  JavaScript numbers are modelled as mathematical reals: every arithmetic operation is the
  exact one, and there is neither rounding nor NaN. Region names are strings, as they
  are at run time.
\<close>

type_synonym RegionName = string
type_synonym PainType = string
type_synonym vec3 = "real \<times> real \<times> real"

text \<open>\<^verbatim>\<open>Vector3.length\<close>, \<^verbatim>\<open>Vector3.normalize\<close> (division by
  \<^verbatim>\<open>length() || 1\<close>) and \<^verbatim>\<open>Vector3.dot\<close> of three.js.\<close>

definition length_v :: "vec3 \<Rightarrow> real" where
  "length_v v = (case v of (x, y, z) \<Rightarrow> sqrt (x * x + y * y + z * z))"

definition normalize_v :: "vec3 \<Rightarrow> vec3" where
  "normalize_v v =
     (case v of (x, y, z) \<Rightarrow>
        let l = length_v v; s = (if l = 0 then 1 else l)
        in (x / s, y / s, z / s))"

definition dot_v :: "vec3 \<Rightarrow> vec3 \<Rightarrow> real" where
  "dot_v v w = (case v of (x, y, z) \<Rightarrow> case w of (x', y', z') \<Rightarrow> x * x' + y * y' + z * z')"

section \<open>The region catalogue of the camera-aware head diagram\<close>

text \<open>A catalogue entry is a named point; the two head diagrams extend it differently.\<close>

record namedPoint =
  name :: string
  position :: vec3

record region = namedPoint +
  facing :: vec3
  color :: string
  description :: string

definition REGIONS :: "region list" where
  "REGIONS =
    [ \<lparr>name = ''Frontal (Forehead)'', position = (0, 0.70, 0.72), facing = (0, 0.25, 1),
        color = ''#f97316'', description = ''Above the brows, between the hairline''\<rparr>,
      \<lparr>name = ''Vertex (Crown)'', position = (0, 0.96, 0.10), facing = (0, 1, 0),
        color = ''#eab308'', description = ''Top of the skull''\<rparr>,
      \<lparr>name = ''Left Temporal'', position = (0.76, 0.28, 0.30), facing = (1, 0.1, 0.3),
        color = ''#a855f7'', description = ''Left temporal bone / temple area''\<rparr>,
      \<lparr>name = ''Right Temporal'', position = (-0.76, 0.28, 0.30), facing = (-1, 0.1, 0.3),
        color = ''#8b5cf6'', description = ''Right temporal bone / temple area''\<rparr>,
      \<lparr>name = ''Left Parietal'', position = (0.65, 0.60, -0.20), facing = (0.85, 0.5, -0.2),
        color = ''#06b6d4'', description = ''Left side of skull behind the temple''\<rparr>,
      \<lparr>name = ''Right Parietal'', position = (-0.65, 0.60, -0.20), facing = (-0.85, 0.5, -0.2),
        color = ''#0ea5e9'', description = ''Right side of skull behind the temple''\<rparr>,
      \<lparr>name = ''Left Periorbital'', position = (0.35, 0.12, 0.90), facing = (0.25, 0, 1),
        color = ''#ef4444'', description = ''Around / behind the left eye socket''\<rparr>,
      \<lparr>name = ''Right Periorbital'', position = (-0.35, 0.12, 0.90), facing = (-0.25, 0, 1),
        color = ''#f43f5e'', description = ''Around / behind the right eye socket''\<rparr>,
      \<lparr>name = ''Left Sinus / Maxillary'', position = (0.30, -0.15, 0.90), facing = (0.2, -0.15, 1),
        color = ''#f59e0b'', description = ''Left cheekbone / maxillary sinus area''\<rparr>,
      \<lparr>name = ''Right Sinus / Maxillary'', position = (-0.30, -0.15, 0.90), facing = (-0.2, -0.15, 1),
        color = ''#d97706'', description = ''Right cheekbone / maxillary sinus area''\<rparr>,
      \<lparr>name = ''Left Auricular'', position = (0.86, 0.02, 0.08), facing = (1, 0, 0.1),
        color = ''#10b981'', description = ''Around the left ear / mastoid region''\<rparr>,
      \<lparr>name = ''Right Auricular'', position = (-0.86, 0.02, 0.08), facing = (-1, 0, 0.1),
        color = ''#059669'', description = ''Around the right ear / mastoid region''\<rparr>,
      \<lparr>name = ''Occipital (Back of Skull)'', position = (0, 0.28, -0.92), facing = (0, 0.2, -1),
        color = ''#3b82f6'', description = ''Back of the skull / occipital bone''\<rparr>,
      \<lparr>name = ''Suboccipital (Base of Skull)'', position = (0, -0.38, -0.82), facing = (0, -0.35, -0.95),
        color = ''#6366f1'', description = ''Skull-neck junction / suboccipital muscles''\<rparr>,
      \<lparr>name = ''Cervicogenic (Neck)'', position = (0, -0.90, -0.10), facing = (0, -0.8, -0.25),
        color = ''#22c55e'', description = ''Upper cervical spine / neck base''\<rparr> ]"

text \<open>The facing vectors, normalised once.\<close>

definition REGION_FACING :: "vec3 list" where
  "REGION_FACING = map (\<lambda>r. normalize_v (facing r)) REGIONS"

text \<open>Dummy anchors to tighten the Voronoi boundaries on zones without pain regions.\<close>

definition DUMMY :: "vec3 list" where
  "DUMMY =
    [ (0, -0.12, 1.04),
      (0, -0.28, 1.00),
      (0, -0.48, 0.90),
      (0, -0.65, 0.72),
      (0, -0.78, 0.45),
      (0.42, -0.38, 0.74),
      (-0.42, -0.38, 0.74),
      (0.60, -0.10, 0.65),
      (-0.60, -0.10, 0.65),
      (0.92, 0.12, 0.22),
      (-0.92, 0.12, 0.22),
      (0.92, -0.10, 0.18),
      (-0.92, -0.10, 0.18),
      (0.55, -0.55, 0.35),
      (-0.55, -0.55, 0.35),
      (0.28, -0.55, -0.72),
      (-0.28, -0.55, -0.72),
      (0, 0.88, -0.55) ]"

record anchor =
  pos :: vec3
  regionIdx :: int
  clickable :: bool

definition ALL_ANCHORS :: "anchor list" where
  "ALL_ANCHORS =
     map (\<lambda>(i, r). \<lparr>pos = position r, regionIdx = int i, clickable = True\<rparr>) (enumerate 0 REGIONS)
     @ map (\<lambda>p. \<lparr>pos = p, regionIdx = -1, clickable = False\<rparr>) DUMMY"

section \<open>The vertex classifier (\<^verbatim>\<open>vertexAnchorMap\<close>)\<close>

text \<open>
  The running minimum starts at \<^verbatim>\<open>Infinity\<close>, which is \<open>None\<close> here: every
  number is below it.
\<close>

definition below :: "real \<Rightarrow> real option \<Rightarrow> bool" where
  "below d m = (case m of None \<Rightarrow> True | Some m' \<Rightarrow> d < m')"

definition d2 :: "vec3 \<Rightarrow> vec3 \<Rightarrow> real" where
  "d2 v a = (case v of (vx, vy, vz) \<Rightarrow> case a of (ax, ay, az) \<Rightarrow>
               (vx - ax)\<^sup>2 + (vy - ay)\<^sup>2 + (vz - az)\<^sup>2)"

text \<open>The inner loop over the anchors from index \<open>a\<close> on, for the vertex \<open>v\<close>.\<close>

fun anchorLoop :: "vec3 \<Rightarrow> anchor list \<Rightarrow> nat \<Rightarrow> real option \<Rightarrow> int \<Rightarrow> int" where
  "anchorLoop v [] a minD2 best = best"
| "anchorLoop v (x # xs) a minD2 best =
     (let d = d2 v (pos x)
      in if below d minD2 then anchorLoop v xs (Suc a) (Some d) (int a)
         else anchorLoop v xs (Suc a) minD2 best)"

datatype error = TypeError

text \<open>
  The memo body for a vertex buffer \<open>verts\<close> and the anchor list. It has no
  \<^verbatim>\<open>throw\<close> and no guard on its inputs, so every run returns a map (\<open>Inr\<close>).
\<close>

definition vertexAnchorMap :: "anchor list \<Rightarrow> vec3 list \<Rightarrow> error + int list" where
  "vertexAnchorMap anchors verts = Inr (map (\<lambda>v. anchorLoop v anchors 0 None 0) verts)"

section \<open>The heat-map head diagram: catalogue and classifier (\<^verbatim>\<open>vertexRegions\<close>)\<close>

record voronoiRegion = namedPoint +
  clickable_vr :: bool

definition REGIONS_vr :: "namedPoint list" where
  "REGIONS_vr =
    [ \<lparr>name = ''Forehead'', position = (0, 0.6, 0.8)\<rparr>,
      \<lparr>name = ''Left temple'', position = (0.6, 0.3, 0.4)\<rparr>,
      \<lparr>name = ''Right temple'', position = (-0.6, 0.3, 0.4)\<rparr>,
      \<lparr>name = ''Behind left eye'', position = (0.35, 0.15, 0.9)\<rparr>,
      \<lparr>name = ''Behind right eye'', position = (-0.35, 0.15, 0.9)\<rparr>,
      \<lparr>name = ''Back of head'', position = (0, 0.3, -0.9)\<rparr>,
      \<lparr>name = ''Neck base'', position = (0, -0.8, -0.2)\<rparr> ]"

definition DUMMY_REGIONS :: "namedPoint list" where
  "DUMMY_REGIONS =
    [ \<lparr>name = ''Nose'', position = (0, -0.1, 1.0)\<rparr>,
      \<lparr>name = ''Mouth'', position = (0, -0.4, 0.9)\<rparr>,
      \<lparr>name = ''Left cheek'', position = (0.4, -0.3, 0.7)\<rparr>,
      \<lparr>name = ''Right cheek'', position = (-0.4, -0.3, 0.7)\<rparr>,
      \<lparr>name = ''Left ear'', position = (0.8, 0, 0)\<rparr>,
      \<lparr>name = ''Right ear'', position = (-0.8, 0, 0)\<rparr>,
      \<lparr>name = ''Top of head'', position = (0, 0.9, 0)\<rparr>,
      \<lparr>name = ''Jaw'', position = (0, -0.7, 0.5)\<rparr>,
      \<lparr>name = ''Back of neck'', position = (0, -0.6, -0.7)\<rparr> ]"

definition ALL_VORONOI_REGIONS :: "voronoiRegion list" where
  "ALL_VORONOI_REGIONS =
     map (\<lambda>r. \<lparr>name = name r, position = position r, clickable_vr = True\<rparr>) REGIONS_vr
     @ map (\<lambda>r. \<lparr>name = name r, position = position r, clickable_vr = False\<rparr>) DUMMY_REGIONS"

text \<open>\<^verbatim>\<open>Vector3.distanceTo\<close> of three.js: the root of the squared distance.\<close>

definition distanceToSquared :: "vec3 \<Rightarrow> vec3 \<Rightarrow> real" where
  "distanceToSquared v w = (case v of (x, y, z) \<Rightarrow> case w of (x', y', z') \<Rightarrow>
     let dx = x - x'; dy = y - y'; dz = z - z' in dx * dx + dy * dy + dz * dz)"

definition distanceTo :: "vec3 \<Rightarrow> vec3 \<Rightarrow> real" where
  "distanceTo v w = sqrt (distanceToSquared v w)"

text \<open>The \<^verbatim>\<open>forEach\<close> over the regions from index \<open>rIdx\<close> on.\<close>

fun regionLoop :: "vec3 \<Rightarrow> voronoiRegion list \<Rightarrow> nat \<Rightarrow> real option \<Rightarrow> int \<Rightarrow> int" where
  "regionLoop v [] rIdx minDist bestRegion = bestRegion"
| "regionLoop v (r # rs) rIdx minDist bestRegion =
     (let dist = distanceTo v (position r)
      in if below dist minDist then regionLoop v rs (Suc rIdx) (Some dist) (int rIdx)
         else regionLoop v rs (Suc rIdx) minDist bestRegion)"

definition vertexRegions :: "voronoiRegion list \<Rightarrow> vec3 list \<Rightarrow> int list" where
  "vertexRegions allRegions verts = map (\<lambda>v. regionLoop v allRegions 0 None (-1)) verts"

section \<open>Boundary vertices (\<^verbatim>\<open>isBoundary\<close>)\<close>

text \<open>
  \<^verbatim>\<open>ALL_VORONOI_REGIONS[vRegions[a]]\<close> together with \<^verbatim>\<open>vRegions[a]\<close>. A read
  past the end of \<open>vRegions\<close>, or an index that is no position of the region list,
  gives \<^verbatim>\<open>undefined\<close> (\<open>None\<close>), and reading \<^verbatim>\<open>.clickable\<close> of it throws.
\<close>

definition regionInfoAt :: "voronoiRegion list \<Rightarrow> int list \<Rightarrow> nat \<Rightarrow> (int \<times> voronoiRegion) option" where
  "regionInfoAt allRegions vRegions a =
     (if a < length vRegions then
        let r = vRegions ! a
        in if 0 \<le> r \<and> nat r < length allRegions then Some (r, allRegions ! nat r) else None
      else None)"

text \<open>
  The loop over the index buffer, three indices a turn. With fewer than three indices
  left the missing ones read as \<^verbatim>\<open>undefined\<close>, and the turn throws.
\<close>

fun boundaryLoop :: "voronoiRegion list \<Rightarrow> int list \<Rightarrow> nat list \<Rightarrow> bool list \<Rightarrow> error + bool list" where
  "boundaryLoop allRegions vRegions (a # b # c # rest) boundary =
     (case (regionInfoAt allRegions vRegions a, regionInfoAt allRegions vRegions b,
            regionInfoAt allRegions vRegions c) of
        (Some (rA, infoA), Some (rB, infoB), Some (rC, infoC)) \<Rightarrow>
          if (rA \<noteq> rB \<or> rB \<noteq> rC \<or> rA \<noteq> rC)
             \<and> (clickable_vr infoA \<or> clickable_vr infoB \<or> clickable_vr infoC)
          then boundaryLoop allRegions vRegions rest (boundary[a := True, b := True, c := True])
          else boundaryLoop allRegions vRegions rest boundary
      | _ \<Rightarrow> Inl TypeError)"
| "boundaryLoop allRegions vRegions [] boundary = Inr boundary"
| "boundaryLoop allRegions vRegions _ boundary = Inl TypeError"

text \<open>\<open>index\<close> is \<^verbatim>\<open>normalizedGeometry.index\<close>, \<open>None\<close> for a geometry without one.\<close>

definition isBoundary :: "voronoiRegion list \<Rightarrow> int list \<Rightarrow> nat list option \<Rightarrow> error + bool list" where
  "isBoundary allRegions vRegions index =
     (let boundary = replicate (length vRegions) False
      in case index of
           None \<Rightarrow> Inr boundary
         | Some idx \<Rightarrow> boundaryLoop allRegions vRegions idx boundary)"

section \<open>Per-region sub-geometries (\<^verbatim>\<open>buildRegionGeo\<close>)\<close>

text \<open>
  The part of the normalised geometry the builder reads: the accessors of its position
  and normal attributes (\<^verbatim>\<open>getX\<close>, \<^verbatim>\<open>getY\<close>, \<^verbatim>\<open>getZ\<close> of a vertex, as one
  triple) and its index buffer, \<open>None\<close> for a geometry without one.
\<close>

record fullGeo =
  position_attr :: "nat \<Rightarrow> vec3"
  normal_attr :: "nat \<Rightarrow> vec3"
  index_attr :: "nat list option"

text \<open>The arrays of the geometry under construction, and the builder's vertex remapping.\<close>

record regionGeo =
  posArr :: "real list"
  normArr :: "real list"
  idxArr :: "nat list"

record buildState = regionGeo +
  remap :: "nat \<rightharpoonup> nat"

definition xyz :: "vec3 \<Rightarrow> real list" where
  "xyz v = (case v of (x, y, z) \<Rightarrow> [x, y, z])"

definition addVert :: "fullGeo \<Rightarrow> nat \<Rightarrow> buildState \<Rightarrow> nat \<times> buildState" where
  "addVert fg vi st =
     (case remap st vi of
        Some ni \<Rightarrow> (ni, st)
      | None \<Rightarrow>
          let ni = length (posArr st) div 3
          in (ni, st\<lparr>posArr := posArr st @ xyz (position_attr fg vi),
                     normArr := normArr st @ xyz (normal_attr fg vi),
                     remap := (remap st)(vi \<mapsto> ni)\<rparr>))"

text \<open>\<^verbatim>\<open>vertexAnchorMap[a]\<close>: a read past the end of the typed array is
  \<^verbatim>\<open>undefined\<close> and equals no target index. The map is the parameter \<open>anchorMap\<close>.\<close>

definition classAt :: "int list \<Rightarrow> nat \<Rightarrow> int option" where
  "classAt anchorMap a = (if a < length anchorMap then Some (anchorMap ! a) else None)"

definition score :: "int list \<Rightarrow> int \<Rightarrow> nat \<Rightarrow> nat \<Rightarrow> nat \<Rightarrow> nat" where
  "score anchorMap targetIdx a b c =
     (if classAt anchorMap a = Some targetIdx then 1 else 0)
     + (if classAt anchorMap b = Some targetIdx then 1 else 0)
     + (if classAt anchorMap c = Some targetIdx then 1 else 0)"

text \<open>
  The loop over the index buffer, one triangle (three indices) a turn. An index buffer
  of a triangle mesh holds whole triangles. With one or two indices left the missing
  ones read as \<^verbatim>\<open>undefined\<close> and match no target, so the last turn adds nothing
  unless two indices are left and both are classified to the target; the triangle added
  then has an undefined third vertex, whose coordinates are no numbers, and is left out
  of the model. The theorems below are about buffers of whole triangles.
\<close>

fun geoLoop :: "fullGeo \<Rightarrow> int list \<Rightarrow> int \<Rightarrow> nat list \<Rightarrow> buildState \<Rightarrow> buildState" where
  "geoLoop fg anchorMap targetIdx (a # b # c # rest) st =
     (if score anchorMap targetIdx a b c \<ge> 2 then
        let (na, st1) = addVert fg a st;
            (nb, st2) = addVert fg b st1;
            (nc, st3) = addVert fg c st2
        in geoLoop fg anchorMap targetIdx rest (st3\<lparr>idxArr := idxArr st3 @ [na, nb, nc]\<rparr>)
      else geoLoop fg anchorMap targetIdx rest st)"
| "geoLoop fg anchorMap targetIdx _ st = st"

definition geoOf :: "buildState \<Rightarrow> regionGeo" where
  "geoOf st = \<lparr>posArr = posArr st, normArr = normArr st, idxArr = idxArr st\<rparr>"

text \<open>\<^verbatim>\<open>fullGeo.index!\<close> is read unchecked: without an index buffer the call throws.\<close>

definition buildRegionGeo :: "fullGeo \<Rightarrow> int list \<Rightarrow> int \<Rightarrow> error + regionGeo" where
  "buildRegionGeo fg anchorMap targetIdx =
     (case index_attr fg of
        None \<Rightarrow> Inl TypeError
      | Some index \<Rightarrow>
          Inr (geoOf (geoLoop fg anchorMap targetIdx index
                        \<lparr>posArr = [], normArr = [], idxArr = [], remap = Map.empty\<rparr>)))"

text \<open>\<^verbatim>\<open>REGIONS.map((_, ri) => buildRegionGeo(...))\<close>: the first call that throws ends the map.\<close>

fun collect :: "(error + 'a) list \<Rightarrow> error + 'a list" where
  "collect [] = Inr []"
| "collect (Inl e # rs) = Inl e"
| "collect (Inr x # rs) = (case collect rs of Inl e \<Rightarrow> Inl e | Inr xs \<Rightarrow> Inr (x # xs))"

definition regionGeos :: "fullGeo \<Rightarrow> int list \<Rightarrow> error + regionGeo list" where
  "regionGeos fg anchorMap =
     collect (map (\<lambda>ri. buildRegionGeo fg anchorMap (int ri)) [0..<length REGIONS])"

section \<open>Vertex colours and the heat map (\<^verbatim>\<open>coloredGeometry\<close>)\<close>

text \<open>
  A three.js colour is its three channels. \<open>Color\<close> reads a style \<^verbatim>\<open>#rrggbb\<close> as
  the channels over 255 (a string of another shape leaves the colour white); a conversion
  between colour spaces, where three.js applies one to the channels, is not modelled.
  \<open>lerp\<close> is \<^verbatim>\<open>Color.lerp\<close>: each channel moves by \<open>alpha\<close> of the difference.
\<close>

type_synonym rgb = "real \<times> real \<times> real"

definition hexDigit :: "char \<Rightarrow> nat" where
  "hexDigit ch =
     (if ch = CHR ''0'' then 0 else if ch = CHR ''1'' then 1 else if ch = CHR ''2'' then 2
      else if ch = CHR ''3'' then 3 else if ch = CHR ''4'' then 4 else if ch = CHR ''5'' then 5
      else if ch = CHR ''6'' then 6 else if ch = CHR ''7'' then 7 else if ch = CHR ''8'' then 8
      else if ch = CHR ''9'' then 9 else if ch = CHR ''a'' then 10 else if ch = CHR ''b'' then 11
      else if ch = CHR ''c'' then 12 else if ch = CHR ''d'' then 13 else if ch = CHR ''e'' then 14
      else if ch = CHR ''f'' then 15 else 0)"

fun Color :: "string \<Rightarrow> rgb" where
  "Color [h, r1, r0, g1, g0, b1, b0] =
     (real (16 * hexDigit r1 + hexDigit r0) / 255,
      real (16 * hexDigit g1 + hexDigit g0) / 255,
      real (16 * hexDigit b1 + hexDigit b0) / 255)"
| "Color _ = (1, 1, 1)"

definition lerp :: "rgb \<Rightarrow> rgb \<Rightarrow> real \<Rightarrow> rgb" where
  "lerp c1 c2 alpha =
     (case c1 of (r, g, b) \<Rightarrow> case c2 of (r', g', b') \<Rightarrow>
        (r + (r' - r) * alpha, g + (g' - g) * alpha, b + (b' - b) * alpha))"

definition intensityToColor :: "real \<Rightarrow> rgb" where
  "intensityToColor inten =
     (let t = max 0 (min 1 (inten / 10))
      in if t < 0.25 then lerp (Color ''#93c5fd'') (Color ''#6ee7b7'') (t / 0.25)
         else if t < 0.5 then lerp (Color ''#6ee7b7'') (Color ''#fde047'') ((t - 0.25) / 0.25)
         else if t < 0.75 then lerp (Color ''#fde047'') (Color ''#fb923c'') ((t - 0.5) / 0.25)
         else lerp (Color ''#fb923c'') (Color ''#ef4444'') ((t - 0.75) / 0.25))"

text \<open>An entry of \<^verbatim>\<open>regionIntensities\<close> (fields \<^verbatim>\<open>region\<close> and \<^verbatim>\<open>intensity\<close>), and
  the lookup map built from the optional list: a later entry for a region replaces an
  earlier one.\<close>

record RegionIntensity =
  region_ri :: RegionName
  intensity_ri :: real

definition intensityMapOf :: "RegionIntensity list option \<Rightarrow> (RegionName \<rightharpoonup> real)" where
  "intensityMapOf regionIntensities =
     (case regionIntensities of
        None \<Rightarrow> Map.empty
      | Some ris \<Rightarrow> fold (\<lambda>ri m. m(region_ri ri \<mapsto> intensity_ri ri)) ris Map.empty)"

definition baseColor :: rgb where "baseColor = Color ''#f3f4f6''"
definition selectedColor :: rgb where "selectedColor = Color ''#fca5a5''"
definition hoveredColor :: rgb where "hoveredColor = Color ''#fee2e2''"
definition selectedHoveredColor :: rgb where "selectedHoveredColor = Color ''#f87171''"
definition boundaryColor :: rgb where "boundaryColor = Color ''#9ca3af''"

text \<open>
  The colour of one vertex, from the entry \<open>regionInfo\<close> of its region and its boundary
  flag. \<open>hoveredRegion\<close> is \<open>None\<close> when no region is hovered.
\<close>

definition vertexColor ::
  "RegionName list \<Rightarrow> RegionName option \<Rightarrow> (RegionName \<rightharpoonup> real) \<Rightarrow> voronoiRegion \<Rightarrow> bool \<Rightarrow> rgb" where
  "vertexColor selected hoveredRegion intensityMap regionInfo boundary =
     (if clickable_vr regionInfo then
        let regionName = name regionInfo;
            isSelected = (regionName \<in> set selected);
            isHovered = (hoveredRegion = Some regionName);
            regionIntensity = intensityMap regionName
        in if boundary then boundaryColor
           else if regionIntensity \<noteq> None \<and> the regionIntensity > 0
             then intensityToColor (the regionIntensity)
           else if isSelected \<and> isHovered then selectedHoveredColor
           else if isSelected then selectedColor
           else if isHovered then hoveredColor
           else baseColor
      else if boundary then boundaryColor
      else baseColor)"

text \<open>\<^verbatim>\<open>isBoundary[i]\<close> as a condition.\<close>

definition boundaryAt :: "bool list \<Rightarrow> nat \<Rightarrow> bool" where
  "boundaryAt boundary i = (i < length boundary \<and> boundary ! i)"

text \<open>
  The colours of all vertices, one per vertex in place of three floats. Reading
  \<^verbatim>\<open>.clickable\<close> of a missing region entry throws, which ends the loop.
\<close>

definition coloredGeometry ::
  "voronoiRegion list \<Rightarrow> int list \<Rightarrow> bool list \<Rightarrow> RegionName list \<Rightarrow> RegionName option
     \<Rightarrow> RegionIntensity list option \<Rightarrow> error + rgb list" where
  "coloredGeometry allRegions vRegions boundary selected hoveredRegion regionIntensities =
     (let intensityMap = intensityMapOf regionIntensities
      in collect (map (\<lambda>i. case regionInfoAt allRegions vRegions i of
                              None \<Rightarrow> Inl TypeError
                            | Some (rIdx, regionInfo) \<Rightarrow>
                                Inr (vertexColor selected hoveredRegion intensityMap regionInfo
                                       (boundaryAt boundary i)))
                    [0..<length vRegions]))"

section \<open>The per-frame visibility pass (\<^verbatim>\<open>useFrame\<close>)\<close>

record material =
  visible :: bool
  opacity :: real

definition visibility :: "real \<Rightarrow> real" where
  "visibility dot = max 0 (min 1 (dot / 0.25))"

definition baseOpacity :: "bool \<Rightarrow> bool \<Rightarrow> real" where
  "baseOpacity isSelected isHovered =
     (if isSelected then (if isHovered then 0.75 else 0.60)
      else if isHovered then 0.40
      else 0.10)"

text \<open>
  The body of the loop for one region \<open>ri\<close> whose material reference is set:
  \<open>selected\<close> is \<^verbatim>\<open>selectedRef.current\<close>, \<open>hovered\<close> is
  \<^verbatim>\<open>hoveredRef.current\<close> (\<open>-1\<close> when nothing is hovered).
\<close>

definition frameRegion :: "vec3 \<Rightarrow> RegionName list \<Rightarrow> int \<Rightarrow> nat \<Rightarrow> material \<Rightarrow> material" where
  "frameRegion camDir selected hovered ri mat =
     (let dot = dot_v camDir (REGION_FACING ! ri);
          vis = visibility dot
      in if vis = 0 then mat\<lparr>visible := False\<rparr>
         else
           let isSelected = (name (REGIONS ! ri) \<in> set selected);
               isHovered = (hovered = int ri)
           in mat\<lparr>visible := True, opacity := baseOpacity isSelected isHovered * vis\<rparr>)"

text \<open>
  \<^verbatim>\<open>matRefs.current\<close> holds one optional material per region; an unset reference
  (\<open>None\<close>, also what a read past the end gives) is skipped.
\<close>

definition matAt :: "material option list \<Rightarrow> nat \<Rightarrow> material option" where
  "matAt mats ri = (if ri < length mats then mats ! ri else None)"

definition frameStep :: "vec3 \<Rightarrow> RegionName list \<Rightarrow> int \<Rightarrow> nat \<Rightarrow> material option list \<Rightarrow> material option list" where
  "frameStep camDir selected hovered ri mats =
     (case matAt mats ri of
        None \<Rightarrow> mats
      | Some mat \<Rightarrow> mats[ri := Some (frameRegion camDir selected hovered ri mat)])"

definition useFrame :: "vec3 \<Rightarrow> RegionName list \<Rightarrow> int \<Rightarrow> material option list \<Rightarrow> material option list" where
  "useFrame cameraPosition selected hovered mats =
     (let camDir = normalize_v cameraPosition
      in fold (frameStep camDir selected hovered) [0..<length REGIONS] mats)"

section \<open>The log page: toggling a region\<close>

text \<open>
  The state of the log form that \<^verbatim>\<open>handleToggleRegion\<close> touches. A
  \<^verbatim>\<open>Record<RegionName, _>\<close> is a map from names; \<^verbatim>\<open>delete\<close> removes a key.
  \<open>handleToggleRegion\<close> is the handler of \<^verbatim>\<open>src/app/log/page.tsx\<close>;
  \<open>handleToggleRegion0\<close> is the handler of the log page whose form has no pain types.
\<close>

record logForm0 =
  selectedRegions :: "RegionName list"
  intensities :: "RegionName \<rightharpoonup> real"

record logForm = logForm0 +
  painTypes :: "RegionName \<rightharpoonup> PainType list"

definition handleToggleRegion0 :: "RegionName \<Rightarrow> logForm0 \<Rightarrow> logForm0" where
  "handleToggleRegion0 region st =
     (let prev = selectedRegions st in
      if region \<in> set prev then
        \<lparr>selectedRegions = filter (\<lambda>r. r \<noteq> region) prev,
         intensities = (intensities st)(region := None)\<rparr>
      else
        \<lparr>selectedRegions = prev @ [region],
         intensities = (intensities st)(region \<mapsto> 5)\<rparr>)"

definition handleToggleRegion :: "RegionName \<Rightarrow> logForm \<Rightarrow> logForm" where
  "handleToggleRegion region st =
     (let prev = selectedRegions st in
      if region \<in> set prev then
        \<lparr>selectedRegions = filter (\<lambda>r. r \<noteq> region) prev,
         intensities = (intensities st)(region := None),
         painTypes = (painTypes st)(region := None)\<rparr>
      else
        \<lparr>selectedRegions = prev @ [region],
         intensities = (intensities st)(region \<mapsto> 5),
         painTypes = (painTypes st)(region \<mapsto> [])\<rparr>)"

section \<open>The store: sessions and region frequency\<close>

record RegionLog =
  region_name :: RegionName
  intensity :: real

text \<open>\<open>sessionData\<close> is \<^verbatim>\<open>Omit<MigraineSession, 'id' | 'user_id'>\<close>; a
  session extends it by the two omitted fields (the field \<^verbatim>\<open>notes\<close> is
  \<open>notes_s\<close> here, \<^verbatim>\<open>id\<close> is \<open>id_session\<close> and \<open>id_user\<close>).\<close>

record sessionData =
  start_time :: string
  end_time :: string
  notes_s :: string
  regions :: "RegionLog list"

record MigraineSession = sessionData +
  id_session :: string
  user_id :: string

record User =
  id_user :: string
  email :: string
  created_at :: string

record AppState =
  currentUser :: "User option"
  sessions :: "MigraineSession list"

text \<open>
  \<^verbatim>\<open>addSession\<close>: \<open>uuid\<close> is the value \<^verbatim>\<open>uuidv4()\<close> returns for the new
  session. \<^verbatim>\<open>set({ sessions: ... })\<close> replaces that one field of the state.
\<close>

definition addSession :: "string \<Rightarrow> sessionData \<Rightarrow> AppState \<Rightarrow> AppState" where
  "addSession uuid sd st =
     (case currentUser st of
        None \<Rightarrow> st
      | Some user \<Rightarrow>
          let newSession =
                \<lparr>start_time = start_time sd, end_time = end_time sd, notes_s = notes_s sd,
                 regions = regions sd, id_session = uuid, user_id = id_user user\<rparr>
          in st\<lparr>sessions := sessions st @ [newSession]\<rparr>)"

subsection \<open>Region frequency (\<^verbatim>\<open>computeRegionFrequency\<close>)\<close>

record RegionFrequency =
  region :: RegionName
  count :: nat
  avgIntensity :: real

text \<open>
  A value of \<^verbatim>\<open>regionMap\<close> (its field \<^verbatim>\<open>count\<close> is \<open>count_t\<close> here). The
  \<^verbatim>\<open>Map\<close> is a list of entries in insertion order; \<open>mapSet\<close> is \<^verbatim>\<open>Map.set\<close>,
  which keeps the place of a key that is already there, and \<open>map_of\<close> is \<^verbatim>\<open>Map.get\<close>.
\<close>

record tally =
  count_t :: nat
  totalIntensity :: real

fun mapSet :: "'k \<Rightarrow> 'v \<Rightarrow> ('k \<times> 'v) list \<Rightarrow> ('k \<times> 'v) list" where
  "mapSet k v [] = [(k, v)]"
| "mapSet k v ((k', v') # kvs) = (if k' = k then (k, v) # kvs else (k', v') # mapSet k v kvs)"

text \<open>The body of the inner \<^verbatim>\<open>forEach\<close>, for one logged region.\<close>

definition addLog :: "RegionLog \<Rightarrow> (RegionName \<times> tally) list \<Rightarrow> (RegionName \<times> tally) list" where
  "addLog r regionMap =
     (let existing = (case map_of regionMap (region_name r) of
                        Some e \<Rightarrow> e
                      | None \<Rightarrow> \<lparr>count_t = 0, totalIntensity = 0\<rparr>);
          existing' = existing\<lparr>count_t := count_t existing + 1,
                                totalIntensity := totalIntensity existing + intensity r\<rparr>
      in mapSet (region_name r) existing' regionMap)"

text \<open>\<^verbatim>\<open>Math.round\<close>: the nearest integer, a half rounding up.\<close>

definition Math_round :: "real \<Rightarrow> real" where
  "Math_round x = of_int \<lfloor>x + 1 / 2\<rfloor>"

text \<open>
  \<^verbatim>\<open>sort((a, b) => b.count - a.count)\<close> is a stable sort by descending count:
  \<open>sort_key\<close> on the negated count.
\<close>

definition computeRegionFrequency :: "MigraineSession list \<Rightarrow> RegionFrequency list" where
  "computeRegionFrequency sessionList =
     (let regionMap = fold (\<lambda>session m. fold addLog (regions session) m) sessionList []
      in sort_key (\<lambda>e. - int (count e))
           (map (\<lambda>(regionName, data).
                   \<lparr>region = regionName, count = count_t data,
                    avgIntensity =
                      (if count_t data > 0
                       then Math_round ((totalIntensity data / real (count_t data)) * 10) / 10
                       else 0)\<rparr>)
              regionMap))"

section \<open>Notions used to state and prove the properties\<close>

text \<open>
  The shape the two classifier loops share: a scan that keeps the index of the first
  element whose key \<open>f\<close> is strictly below the running minimum.
\<close>

fun scanMin :: "('a \<Rightarrow> real) \<Rightarrow> 'a list \<Rightarrow> nat \<Rightarrow> real option \<Rightarrow> int \<Rightarrow> int" where
  "scanMin f [] a m best = best"
| "scanMin f (x # xs) a m best =
     (if below (f x) m then scanMin f xs (Suc a) (Some (f x)) (int a)
      else scanMin f xs (Suc a) m best)"

text \<open>\<open>k\<close> is the first position of \<open>xs\<close> where the key \<open>f\<close> is least.\<close>

definition firstMin :: "('a \<Rightarrow> real) \<Rightarrow> 'a list \<Rightarrow> nat \<Rightarrow> bool" where
  "firstMin f xs k \<longleftrightarrow>
     k < length xs \<and> (\<forall>j<length xs. f (xs ! k) \<le> f (xs ! j)) \<and> (\<forall>j<k. f (xs ! k) < f (xs ! j))"

text \<open>The triangles of an index buffer: its consecutive groups of three indices.\<close>

fun triangles :: "nat list \<Rightarrow> (nat \<times> nat \<times> nat) list" where
  "triangles (a # b # c # rest) = (a, b, c) # triangles rest"
| "triangles _ = []"

text \<open>
  A triangle is a seam when its three vertices do not share one classification and at
  least one of the three classifications is a clickable region.
\<close>

definition seam :: "voronoiRegion list \<Rightarrow> int list \<Rightarrow> nat \<times> nat \<times> nat \<Rightarrow> bool" where
  "seam allRegions vRegions t =
     (case t of (a, b, c) \<Rightarrow>
        \<not> (vRegions ! a = vRegions ! b \<and> vRegions ! b = vRegions ! c)
        \<and> (clickable_vr (allRegions ! nat (vRegions ! a))
           \<or> clickable_vr (allRegions ! nat (vRegions ! b))
           \<or> clickable_vr (allRegions ! nat (vRegions ! c))))"

text \<open>\<open>v\<close> is one of the three vertices of the triangle.\<close>

definition corner :: "nat \<Rightarrow> nat \<times> nat \<times> nat \<Rightarrow> bool" where
  "corner v t = (case t of (a, b, c) \<Rightarrow> v = a \<or> v = b \<or> v = c)"

text \<open>
  Reading a built geometry back: the position and normal of its vertex \<open>ni\<close>, and its
  triangles as triples of such vertex data.
\<close>

definition vertexAt :: "real list \<Rightarrow> real list \<Rightarrow> nat \<Rightarrow> vec3 \<times> vec3" where
  "vertexAt p q ni =
     ((p ! (3 * ni), p ! (3 * ni + 1), p ! (3 * ni + 2)),
      (q ! (3 * ni), q ! (3 * ni + 1), q ! (3 * ni + 2)))"

definition geoTriangles :: "real list \<Rightarrow> real list \<Rightarrow> nat list \<Rightarrow> ((vec3 \<times> vec3) \<times> (vec3 \<times> vec3) \<times> (vec3 \<times> vec3)) list" where
  "geoTriangles p q ix =
     map (\<lambda>(i, j, k). (vertexAt p q i, vertexAt p q j, vertexAt p q k)) (triangles ix)"

definition trianglesOf :: "regionGeo \<Rightarrow> ((vec3 \<times> vec3) \<times> (vec3 \<times> vec3) \<times> (vec3 \<times> vec3)) list" where
  "trianglesOf g = geoTriangles (posArr g) (normArr g) (idxArr g)"

text \<open>The position and normal of a vertex of the full geometry, and a triangle's copy.\<close>

definition sourceVertex :: "fullGeo \<Rightarrow> nat \<Rightarrow> vec3 \<times> vec3" where
  "sourceVertex fg v = (position_attr fg v, normal_attr fg v)"

text \<open>At least two of the triangle's three vertices are classified to the target.\<close>

definition majority :: "int list \<Rightarrow> int \<Rightarrow> nat \<times> nat \<times> nat \<Rightarrow> bool" where
  "majority anchorMap targetIdx t = (case t of (a, b, c) \<Rightarrow> 2 \<le> score anchorMap targetIdx a b c)"

definition copied :: "fullGeo \<Rightarrow> nat \<times> nat \<times> nat \<Rightarrow> (vec3 \<times> vec3) \<times> (vec3 \<times> vec3) \<times> (vec3 \<times> vec3)" where
  "copied fg t = (case t of (a, b, c) \<Rightarrow> (sourceVertex fg a, sourceVertex fg b, sourceVertex fg c))"

text \<open>
  The invariant of the builder's loop: the arrays hold whole vertices, every index
  written so far names one of them, and the remapping sends a source vertex to a copy of it.
\<close>

definition geoInv :: "fullGeo \<Rightarrow> buildState \<Rightarrow> bool" where
  "geoInv fg st \<longleftrightarrow>
     length (posArr st) mod 3 = 0 \<and> length (normArr st) = length (posArr st)
     \<and> length (idxArr st) mod 3 = 0
     \<and> (\<forall>i\<in>set (idxArr st). i < length (posArr st) div 3)
     \<and> (\<forall>vi ni. remap st vi = Some ni \<longrightarrow>
           ni < length (posArr st) div 3 \<and> vertexAt (posArr st) (normArr st) ni = sourceVertex fg vi)"

text \<open>
  For the region frequency: the logged regions with a given name, the count and total a
  region map holds for a name, all logged regions of a list of sessions, the mean of a
  list of numbers, and the frequency entry made from an entry of the region map.
\<close>

definition occurrences :: "RegionName \<Rightarrow> RegionLog list \<Rightarrow> RegionLog list" where
  "occurrences n logs = filter (\<lambda>r. region_name r = n) logs"

definition tallyOf :: "(RegionName \<times> tally) list \<Rightarrow> RegionName \<Rightarrow> nat \<times> real" where
  "tallyOf m k = (case map_of m k of None \<Rightarrow> (0, 0) | Some e \<Rightarrow> (count_t e, totalIntensity e))"

definition allLogs :: "MigraineSession list \<Rightarrow> RegionLog list" where
  "allLogs sessionList = concat (map regions sessionList)"

definition mean :: "real list \<Rightarrow> real" where
  "mean xs = sum_list xs / real (length xs)"

definition frequencyOf :: "RegionName \<times> tally \<Rightarrow> RegionFrequency" where
  "frequencyOf entry =
     (case entry of (regionName, data) \<Rightarrow>
        \<lparr>region = regionName, count = count_t data,
         avgIntensity =
           (if count_t data > 0
            then Math_round ((totalIntensity data / real (count_t data)) * 10) / 10
            else 0)\<rparr>)"

section \<open>Properties of the visibility pass\<close>

lemma length_frameStep: "length (frameStep c s h ri mats) = length mats"
  by (simp add: frameStep_def split: option.splits)

lemma frameStep_nth:
  "j < length mats \<Longrightarrow>
   frameStep c s h ri mats ! j =
     (if j = ri then map_option (frameRegion c s h ri) (mats ! j) else mats ! j)"
  by (auto simp: frameStep_def matAt_def split: option.splits)

lemma length_fold_frameStep: "length (fold (frameStep c s h) [0..<n] mats) = length mats"
  by (induction n) (simp_all add: length_frameStep)

text \<open>Each turn of the loop writes its own region's material only.\<close>

lemma fold_frameStep_nth:
  "j < length mats \<Longrightarrow>
   fold (frameStep c s h) [0..<n] mats ! j =
     (if j < n then map_option (frameRegion c s h j) (mats ! j) else mats ! j)"
proof (induction n)
  case 0
  then show ?case by simp
next
  case (Suc n)
  show ?case
  proof (cases "j = n")
    case True
    with Suc show ?thesis
      by (simp add: frameStep_nth length_fold_frameStep)
  next
    case False
    with Suc show ?thesis
      by (simp add: frameStep_nth length_fold_frameStep)
  qed
qed

lemma useFrame_nth:
  assumes "ri < length REGIONS" and "matAt mats ri = Some mat"
  shows "useFrame cam selected hovered mats ! ri =
           Some (frameRegion (normalize_v cam) selected hovered ri mat)"
proof -
  from assms(2) have "ri < length mats" and "mats ! ri = Some mat"
    by (auto simp: matAt_def split: if_splits)
  with assms(1) show ?thesis
    by (simp add: useFrame_def fold_frameStep_nth)
qed




lemma visibility_nonneg: "0 \<le> visibility dot"
  unfolding visibility_def by simp

lemma length_REGIONS: "length REGIONS = 15"
  by (simp add: REGIONS_def)

lemma REGION_FACING_crown: "REGION_FACING ! Suc 0 = (0, 1, 0)"
  by (simp add: REGION_FACING_def REGIONS_def normalize_v_def length_v_def)

lemma REGIONS_crown_name: "name (REGIONS ! Suc 0) = ''Vertex (Crown)''"
  by (simp add: REGIONS_def)



text \<open>
  Claim C3. For a region whose material is set and whose visibility score \<open>vis\<close> is
  positive, the frame shows the overlay with opacity \<open>baseOpacity * vis\<close>, where
  \<open>baseOpacity\<close> is 0.75 for a selected and hovered region, 0.60 for a selected one,
  0.40 for a hovered one and 0.10 otherwise; so at equal visibility the four opacities
  are strictly ordered.
\<close>

theorem overlay_opacity_C3:
  assumes "ri < length REGIONS" and "matAt mats ri = Some mat"
    and "vis = visibility (dot_v (normalize_v cam) (REGION_FACING ! ri))"
    and "0 < vis"
  shows "useFrame cam selected hovered mats ! ri =
           Some (mat\<lparr>visible := True,
                     opacity := baseOpacity (name (REGIONS ! ri) \<in> set selected) (hovered = int ri) * vis\<rparr>)
       \<and> baseOpacity True True = 0.75 \<and> baseOpacity True False = 0.60
       \<and> baseOpacity False True = 0.40 \<and> baseOpacity False False = 0.10
       \<and> baseOpacity True True * vis > baseOpacity True False * vis
       \<and> baseOpacity True False * vis > baseOpacity False True * vis
       \<and> baseOpacity False True * vis > baseOpacity False False * vis"
proof -
  have "useFrame cam selected hovered mats ! ri =
          Some (frameRegion (normalize_v cam) selected hovered ri mat)"
    using assms(1,2) by (rule useFrame_nth)
  moreover have "frameRegion (normalize_v cam) selected hovered ri mat =
      mat\<lparr>visible := True,
          opacity := baseOpacity (name (REGIONS ! ri) \<in> set selected) (hovered = int ri) * vis\<rparr>"
    using assms(3,4) by (simp add: frameRegion_def Let_def)
  ultimately show ?thesis
    using assms(4) by (simp add: baseOpacity_def)
qed

theorem overlay_opacity_C3_witness:
  "useFrame (0, 1, 0) [''Vertex (Crown)''] 1
       (replicate 15 (Some \<lparr>visible = False, opacity = 0.1\<rparr>)) ! Suc 0
     = Some \<lparr>visible = True, opacity = 0.75\<rparr>
   \<and> visibility (dot_v (normalize_v (0, 1, 0)) (REGION_FACING ! Suc 0)) = 1"
proof -
  have dot: "dot_v (normalize_v (0, 1, 0)) (REGION_FACING ! Suc 0) = 1"
    by (simp add: REGION_FACING_crown normalize_v_def length_v_def dot_v_def)
  have vis: "visibility 1 = 1"
    by (simp add: visibility_def)
  have "Suc 0 < length REGIONS"
    by (simp add: length_REGIONS)
  moreover have "matAt (replicate 15 (Some \<lparr>visible = False, opacity = 0.1\<rparr>)) (Suc 0)
                   = Some \<lparr>visible = False, opacity = 0.1\<rparr>"
    by (simp add: matAt_def)
  ultimately show ?thesis
    using overlay_opacity_C3 [of "Suc 0" "replicate 15 (Some \<lparr>visible = False, opacity = 0.1\<rparr>)"
        "\<lparr>visible = False, opacity = 0.1\<rparr>" 1 "(0, 1, 0)" "[''Vertex (Crown)'']" 1]
    by (simp add: dot vis REGIONS_crown_name baseOpacity_def)
qed

section \<open>Properties of the toggle\<close>

text \<open>
  Claim C7. Toggling a region appends it to the selection when it is absent and removes
  it when it is present; toggling the same region twice gives back the selection as a
  set. Both handlers do so.
\<close>

theorem toggle_twice_C7:
  "(r \<notin> set (selectedRegions st) \<longrightarrow>
      selectedRegions (handleToggleRegion r st) = selectedRegions st @ [r])
 \<and> (r \<in> set (selectedRegions st) \<longrightarrow>
      set (selectedRegions (handleToggleRegion r st)) = set (selectedRegions st) - {r})
 \<and> set (selectedRegions (handleToggleRegion r (handleToggleRegion r st)))
      = set (selectedRegions st)
 \<and> (r \<notin> set (selectedRegions st0) \<longrightarrow>
      selectedRegions (handleToggleRegion0 r st0) = selectedRegions st0 @ [r])
 \<and> (r \<in> set (selectedRegions st0) \<longrightarrow>
      set (selectedRegions (handleToggleRegion0 r st0)) = set (selectedRegions st0) - {r})
 \<and> set (selectedRegions (handleToggleRegion0 r (handleToggleRegion0 r st0)))
      = set (selectedRegions st0)"
  by (auto simp: handleToggleRegion_def handleToggleRegion0_def Let_def)

theorem toggle_twice_C7_witness:
  "selectedRegions (handleToggleRegion ''Forehead''
       \<lparr>selectedRegions = [''Forehead'', ''Neck base''], intensities = Map.empty,
        painTypes = Map.empty\<rparr>) = [''Neck base'']
   \<and> selectedRegions (handleToggleRegion ''Forehead'' (handleToggleRegion ''Forehead''
       \<lparr>selectedRegions = [''Forehead'', ''Neck base''], intensities = Map.empty,
        painTypes = Map.empty\<rparr>)) = [''Neck base'', ''Forehead'']
   \<and> set (selectedRegions (handleToggleRegion ''Forehead'' (handleToggleRegion ''Forehead''
       \<lparr>selectedRegions = [''Forehead'', ''Neck base''], intensities = Map.empty,
        painTypes = Map.empty\<rparr>))) = {''Forehead'', ''Neck base''}
   \<and> selectedRegions (handleToggleRegion0 ''Forehead''
       \<lparr>selectedRegions = [''Neck base''], intensities = Map.empty\<rparr>)
       = [''Neck base'', ''Forehead'']"
  using toggle_twice_C7 [of "''Forehead''"
      "\<lparr>selectedRegions = [''Forehead'', ''Neck base''], intensities = Map.empty,
        painTypes = Map.empty\<rparr>"
      "\<lparr>selectedRegions = [''Neck base''], intensities = Map.empty\<rparr>"]
  by (simp add: handleToggleRegion_def)

section \<open>Properties of the store\<close>

text \<open>
  Claim C10. With no user logged in, \<open>addSession\<close> returns the state as it was. With
  a user logged in, the new list of sessions is the old one followed by one session,
  which carries the user's id, the generated id and the fields of the input; the
  current user stays.
\<close>

theorem addSession_C10:
  "(currentUser st = None \<longrightarrow> addSession uuid sd st = st)
 \<and> (currentUser st = Some user \<longrightarrow>
      (\<exists>s. sessions (addSession uuid sd st) = sessions st @ [s]
          \<and> user_id s = id_user user \<and> id_session s = uuid
          \<and> start_time s = start_time sd \<and> end_time s = end_time sd
          \<and> notes_s s = notes_s sd \<and> regions s = regions sd)
      \<and> currentUser (addSession uuid sd st) = currentUser st)"
  by (simp add: addSession_def)

theorem addSession_C10_witness:
  "addSession ''id-2''
       \<lparr>start_time = ''t0'', end_time = ''t1'', notes_s = ''n'',
        regions = [\<lparr>region_name = ''Forehead'', intensity = 5\<rparr>]\<rparr>
       \<lparr>currentUser = None, sessions = []\<rparr>
     = \<lparr>currentUser = None, sessions = []\<rparr>
   \<and> sessions (addSession ''id-2''
       \<lparr>start_time = ''t0'', end_time = ''t1'', notes_s = ''n'',
        regions = [\<lparr>region_name = ''Forehead'', intensity = 5\<rparr>]\<rparr>
       \<lparr>currentUser = Some \<lparr>id_user = ''u1'', email = ''a@b.c'', created_at = ''t''\<rparr>,
        sessions = []\<rparr>)
     = [\<lparr>start_time = ''t0'', end_time = ''t1'', notes_s = ''n'',
         regions = [\<lparr>region_name = ''Forehead'', intensity = 5\<rparr>],
         id_session = ''id-2'', user_id = ''u1''\<rparr>]"
  using addSession_C10 [of "\<lparr>currentUser = None, sessions = []\<rparr>" "''id-2''"
      "\<lparr>start_time = ''t0'', end_time = ''t1'', notes_s = ''n'',
        regions = [\<lparr>region_name = ''Forehead'', intensity = 5\<rparr>]\<rparr>"]
  by (simp add: addSession_def)

section \<open>Properties of the vertex classifiers\<close>

lemma below_trans: "x < y \<Longrightarrow> below y m \<Longrightarrow> below x m"
  by (cases m) (auto simp: below_def)

lemma below_not_below: "below x m \<Longrightarrow> \<not> below y m \<Longrightarrow> x < y"
  by (cases m) (auto simp: below_def)

lemma firstMin_Cons_0:
  "(\<forall>y\<in>set xs. f x \<le> f y) \<Longrightarrow> firstMin f (x # xs) 0"
  by (auto simp: firstMin_def less_Suc_eq_0_disj)

lemma firstMin_Cons_Suc:
  "firstMin f xs k \<Longrightarrow> f (xs ! k) < f x \<Longrightarrow> firstMin f (x # xs) (Suc k)"
  by (auto simp: firstMin_def nth_Cons' less_Suc_eq_0_disj)

lemma scanMin_spec:
  "(scanMin f xs a m best = best \<and> (\<forall>x\<in>set xs. \<not> below (f x) m))
   \<or> (\<exists>k. scanMin f xs a m best = int (a + k) \<and> below (f (xs ! k)) m \<and> firstMin f xs k)"
proof (induction xs arbitrary: a m best)
  case Nil
  then show ?case by simp
next
  case (Cons x xs)
  show ?case
  proof (cases "below (f x) m")
    case True
    from Cons.IH [of "Suc a" "Some (f x)" "int a"]
    show ?thesis
    proof
      assume h: "scanMin f xs (Suc a) (Some (f x)) (int a) = int a \<and>
                 (\<forall>y\<in>set xs. \<not> below (f y) (Some (f x)))"
      then have "\<forall>y\<in>set xs. f x \<le> f y"
        by (auto simp: below_def)
      then have "firstMin f (x # xs) 0"
        by (rule firstMin_Cons_0)
      with h True show ?thesis
        by (intro disjI2 exI [of _ 0]) simp
    next
      assume "\<exists>k. scanMin f xs (Suc a) (Some (f x)) (int a) = int (Suc a + k) \<and>
                  below (f (xs ! k)) (Some (f x)) \<and> firstMin f xs k"
      then obtain k where k: "scanMin f xs (Suc a) (Some (f x)) (int a) = int (Suc a + k)"
        "f (xs ! k) < f x" "firstMin f xs k"
        by (auto simp: below_def)
      from k(2) True have "below (f (xs ! k)) m"
        by (rule below_trans)
      moreover from k(3,2) have "firstMin f (x # xs) (Suc k)"
        by (rule firstMin_Cons_Suc)
      ultimately show ?thesis
        using k(1) True by (intro disjI2 exI [of _ "Suc k"]) simp
    qed
  next
    case False
    from Cons.IH [of "Suc a" m best]
    show ?thesis
    proof
      assume "scanMin f xs (Suc a) m best = best \<and> (\<forall>y\<in>set xs. \<not> below (f y) m)"
      with False show ?thesis
        by simp
    next
      assume "\<exists>k. scanMin f xs (Suc a) m best = int (Suc a + k) \<and>
                  below (f (xs ! k)) m \<and> firstMin f xs k"
      then obtain k where k: "scanMin f xs (Suc a) m best = int (Suc a + k)"
        "below (f (xs ! k)) m" "firstMin f xs k"
        by auto
      from k(2) False have "f (xs ! k) < f x"
        by (rule below_not_below)
      with k(3) have "firstMin f (x # xs) (Suc k)"
        by (rule firstMin_Cons_Suc)
      with k(1,2) False show ?thesis
        by (intro disjI2 exI [of _ "Suc k"]) simp
    qed
  qed
qed

lemma scanMin_nearest:
  assumes "xs \<noteq> []"
  shows "\<exists>k. scanMin f xs 0 None best = int k \<and> firstMin f xs k"
  using scanMin_spec [of f xs 0 None best] assms
  by (cases xs) (auto simp: below_def)

lemma scanMin_empty: "scanMin f [] a m best = best"
  by simp


lemma regionLoop_scanMin:
  "regionLoop v rs i m best = scanMin (\<lambda>r. distanceTo v (position r)) rs i m best"
  by (induction rs arbitrary: i m best) (simp_all add: Let_def)






lemma length_ALL_VORONOI_REGIONS: "length ALL_VORONOI_REGIONS = 16"
  by (simp add: ALL_VORONOI_REGIONS_def REGIONS_vr_def DUMMY_REGIONS_def)



text \<open>
  Claim C8, as the code has it. The classifier has no failure path: for every anchor
  list and every vertex buffer it returns a map with one entry per vertex. A mesh with
  no vertex gives the empty map, and with an empty anchor list every vertex keeps the
  initial index 0.
\<close>

theorem classifier_total_C8:
  "(\<exists>m. vertexAnchorMap anchors verts = Inr m \<and> length m = length verts)
   \<and> vertexAnchorMap anchors [] = Inr []
   \<and> vertexAnchorMap [] verts = Inr (replicate (length verts) 0)"
  by (simp add: vertexAnchorMap_def map_replicate_const)

theorem classifier_total_C8_witness:
  "vertexAnchorMap [] [(0, 0, 0), (1, 1, 1)] = Inr (replicate (length [(0, 0, 0) :: vec3, (1, 1, 1)]) 0)
   \<and> vertexAnchorMap ALL_ANCHORS [] = Inr []"
  using classifier_total_C8 [of "[]" "[(0, 0, 0), (1, 1, 1)]"] classifier_total_C8 [of ALL_ANCHORS "[]"]
  by simp

text \<open>
  Claim C8 as stated says that the classifier rejects a mesh without vertices and an
  empty anchor list. It returns a map for both.
\<close>

theorem classifier_rejects_C8_counterexample:
  "vertexAnchorMap ALL_ANCHORS [] = Inr []
   \<and> vertexAnchorMap [] [(0, 0, 0)] = Inr [0]"
  by (simp add: vertexAnchorMap_def)

section \<open>Properties of the boundary set\<close>

lemma regionInfoAt_Some:
  "a < length vRegions \<Longrightarrow> \<forall>r\<in>set vRegions. 0 \<le> r \<and> nat r < length allRegions \<Longrightarrow>
   regionInfoAt allRegions vRegions a = Some (vRegions ! a, allRegions ! nat (vRegions ! a))"
  by (simp add: regionInfoAt_def Let_def)

lemma boundaryLoop_spec:
  assumes "length idx mod 3 = 0"
    and "\<forall>a\<in>set idx. a < length vRegions"
    and "\<forall>r\<in>set vRegions. 0 \<le> r \<and> nat r < length allRegions"
    and "length bd0 = length vRegions"
  shows "\<exists>bd. boundaryLoop allRegions vRegions idx bd0 = Inr bd \<and> length bd = length vRegions
            \<and> (\<forall>v<length vRegions. bd ! v \<longleftrightarrow>
                  bd0 ! v \<or> (\<exists>t\<in>set (triangles idx). corner v t \<and> seam allRegions vRegions t))"
  using assms
proof (induction idx arbitrary: bd0 rule: triangles.induct)
  case (1 a b c rest)
  let ?bd1 = "bd0[a := True, b := True, c := True]"
  from "1.prems" have abc: "a < length vRegions" "b < length vRegions" "c < length vRegions"
    and rest: "length rest mod 3 = 0" "\<forall>a\<in>set rest. a < length vRegions"
    by auto
  have info: "regionInfoAt allRegions vRegions a = Some (vRegions ! a, allRegions ! nat (vRegions ! a))"
    "regionInfoAt allRegions vRegions b = Some (vRegions ! b, allRegions ! nat (vRegions ! b))"
    "regionInfoAt allRegions vRegions c = Some (vRegions ! c, allRegions ! nat (vRegions ! c))"
    using abc "1.prems"(3) by (simp_all add: regionInfoAt_Some)
  show ?case
  proof (cases "seam allRegions vRegions (a, b, c)")
    case True
    have len: "length ?bd1 = length vRegions"
      using "1.prems"(4) by simp
    from "1.IH" [OF rest "1.prems"(3) len]
    obtain bd where bd: "boundaryLoop allRegions vRegions rest ?bd1 = Inr bd"
      "length bd = length vRegions"
      "\<forall>v<length vRegions. bd ! v \<longleftrightarrow>
          ?bd1 ! v \<or> (\<exists>t\<in>set (triangles rest). corner v t \<and> seam allRegions vRegions t)"
      by blast
    have step: "boundaryLoop allRegions vRegions (a # b # c # rest) bd0
                  = boundaryLoop allRegions vRegions rest ?bd1"
      using True by (auto simp: info seam_def)
    have upd: "?bd1 ! v \<longleftrightarrow> bd0 ! v \<or> corner v (a, b, c)" if "v < length vRegions" for v
      using that "1.prems"(4) abc by (auto simp: corner_def nth_list_update)
    show ?thesis
      unfolding step using bd True by (auto simp: upd)
  next
    case False
    from "1.IH" [OF rest "1.prems"(3,4)]
    obtain bd where bd: "boundaryLoop allRegions vRegions rest bd0 = Inr bd"
      "length bd = length vRegions"
      "\<forall>v<length vRegions. bd ! v \<longleftrightarrow>
          bd0 ! v \<or> (\<exists>t\<in>set (triangles rest). corner v t \<and> seam allRegions vRegions t)"
      by blast
    have step: "boundaryLoop allRegions vRegions (a # b # c # rest) bd0
                  = boundaryLoop allRegions vRegions rest bd0"
      using False by (auto simp: info seam_def)
    show ?thesis
      unfolding step using bd False by auto
  qed
qed simp_all


lemma isBoundary_spec:
  assumes "length idx mod 3 = 0"
    and "\<forall>a\<in>set idx. a < length vRegions"
    and "\<forall>r\<in>set vRegions. 0 \<le> r \<and> nat r < length allRegions"
  shows "\<exists>bd. isBoundary allRegions vRegions (Some idx) = Inr bd \<and> length bd = length vRegions
            \<and> (\<forall>v<length vRegions. bd ! v \<longleftrightarrow>
                  (\<exists>t\<in>set (triangles idx). corner v t \<and> seam allRegions vRegions t))"
  using boundaryLoop_spec [OF assms, of "replicate (length vRegions) False"]
  by (auto simp: isBoundary_def)

lemma vertexRegions_range:
  assumes "allRegions \<noteq> []"
  shows "\<forall>r\<in>set (vertexRegions allRegions verts). 0 \<le> r \<and> nat r < length allRegions"
proof
  fix r assume "r \<in> set (vertexRegions allRegions verts)"
  then obtain v where r: "r = regionLoop v allRegions 0 None (-1)"
    by (auto simp: vertexRegions_def)
  from scanMin_nearest [OF assms, of "\<lambda>r. distanceTo v (position r)" "-1"]
  obtain k where "regionLoop v allRegions 0 None (-1) = int k" "k < length allRegions"
    by (auto simp: regionLoop_scanMin firstMin_def)
  with r show "0 \<le> r \<and> nat r < length allRegions"
    by simp
qed

text \<open>
  Claim C5. Let \<open>vRegions\<close> be the classification of the vertices over a non-empty
  region list, and \<open>idx\<close> an index buffer of whole triangles over these vertices. Then
  the boundary pass returns one flag per vertex, and the flag of a vertex is set exactly
  when the vertex is a corner of some seam triangle: one whose three vertices do not
  share a classification and of whose classifications at least one is clickable. Without
  an index buffer no vertex is flagged.
\<close>

theorem boundary_set_C5:
  assumes "allRegions \<noteq> []" and "vRegions = vertexRegions allRegions verts"
    and "length idx mod 3 = 0" and "\<forall>a\<in>set idx. a < length verts"
    and "v < length verts"
  shows "(\<exists>bd. isBoundary allRegions vRegions (Some idx) = Inr bd \<and> length bd = length verts
            \<and> (bd ! v \<longleftrightarrow>
                 (\<exists>(a, b, c)\<in>set (triangles idx).
                     (v = a \<or> v = b \<or> v = c)
                     \<and> \<not> (vRegions ! a = vRegions ! b \<and> vRegions ! b = vRegions ! c)
                     \<and> (clickable_vr (allRegions ! nat (vRegions ! a))
                        \<or> clickable_vr (allRegions ! nat (vRegions ! b))
                        \<or> clickable_vr (allRegions ! nat (vRegions ! c))))))
       \<and> isBoundary allRegions vRegions None = Inr (replicate (length verts) False)"
proof -
  have len: "length vRegions = length verts"
    by (simp add: assms(2) vertexRegions_def)
  have range: "\<forall>r\<in>set vRegions. 0 \<le> r \<and> nat r < length allRegions"
    unfolding assms(2) using assms(1) by (rule vertexRegions_range)
  from assms(4) have idx: "\<forall>a\<in>set idx. a < length vRegions"
    by (simp add: len)
  from isBoundary_spec [OF assms(3) idx range]
  obtain bd where bd: "isBoundary allRegions vRegions (Some idx) = Inr bd"
    "length bd = length vRegions"
    "\<forall>v<length vRegions. bd ! v \<longleftrightarrow>
        (\<exists>t\<in>set (triangles idx). corner v t \<and> seam allRegions vRegions t)"
    by blast
  from bd(3) assms(5) have "bd ! v \<longleftrightarrow>
        (\<exists>t\<in>set (triangles idx). corner v t \<and> seam allRegions vRegions t)"
    by (simp add: len)
  also have "\<dots> \<longleftrightarrow> (\<exists>(a, b, c)\<in>set (triangles idx).
                     (v = a \<or> v = b \<or> v = c)
                     \<and> \<not> (vRegions ! a = vRegions ! b \<and> vRegions ! b = vRegions ! c)
                     \<and> (clickable_vr (allRegions ! nat (vRegions ! a))
                        \<or> clickable_vr (allRegions ! nat (vRegions ! b))
                        \<or> clickable_vr (allRegions ! nat (vRegions ! c))))"
    by (auto simp: corner_def seam_def)
  finally show ?thesis
    using bd(1,2) by (simp add: len isBoundary_def)
qed

lemma vertexRegions_sample:
  "vertexRegions ALL_VORONOI_REGIONS
     [(0, 0.6, 0.8), (0.6, 0.3, 0.4), (0, -0.1, 1.0), (0, -0.4, 0.9), (0, -0.7, 0.5)]
   = [0, 1, 7, 8, 14]"
  by (simp add: vertexRegions_def ALL_VORONOI_REGIONS_def REGIONS_vr_def DUMMY_REGIONS_def
        distanceTo_def distanceToSquared_def below_def)

theorem boundary_set_C5_witness:
  "isBoundary ALL_VORONOI_REGIONS
       (vertexRegions ALL_VORONOI_REGIONS
          [(0, 0.6, 0.8), (0.6, 0.3, 0.4), (0, -0.1, 1.0), (0, -0.4, 0.9), (0, -0.7, 0.5)])
       (Some [0, 0, 0, 2, 3, 4, 0, 1, 2])
     = Inr [True, True, True, False, False]
   \<and> triangles [0, 0, 0, 2, 3, 4, 0, 1, 2] = [(0, 0, 0), (2, 3, 4), (0, 1, 2)]
   \<and> isBoundary ALL_VORONOI_REGIONS
       (vertexRegions ALL_VORONOI_REGIONS
          [(0, 0.6, 0.8), (0.6, 0.3, 0.4), (0, -0.1, 1.0), (0, -0.4, 0.9), (0, -0.7, 0.5)])
       None
     = Inr [False, False, False, False, False]"
proof -
  let ?verts = "[(0, 0.6, 0.8), (0.6, 0.3, 0.4), (0, -0.1, 1.0), (0, -0.4, 0.9), (0, -0.7, 0.5)] :: vec3 list"
  let ?idx = "[0, 0, 0, 2, 3, 4, 0, 1, 2] :: nat list"
  have ne: "ALL_VORONOI_REGIONS \<noteq> []"
    using length_ALL_VORONOI_REGIONS by auto
  have m3: "length ?idx mod 3 = 0" and rng: "\<forall>a\<in>set ?idx. a < length ?verts"
    and v0: "(0::nat) < length ?verts"
    by simp_all
  note th = boundary_set_C5 [OF ne refl m3 rng v0]
  from th have none: "isBoundary ALL_VORONOI_REGIONS (vertexRegions ALL_VORONOI_REGIONS ?verts) None
                        = Inr (replicate (length ?verts) False)"
    by (rule conjunct2)
  have some: "isBoundary ALL_VORONOI_REGIONS [0, 1, 7, 8, 14] (Some ?idx)
                   = Inr [True, True, True, False, False]"
    by (simp add: isBoundary_def regionInfoAt_def ALL_VORONOI_REGIONS_def REGIONS_vr_def
          DUMMY_REGIONS_def)
  have rep: "replicate (length ?verts) False = [False, False, False, False, False]"
    by (simp add: numeral_eq_Suc)
  show ?thesis
    using none some by (simp only: vertexRegions_sample rep triangles.simps)
qed

section \<open>Properties of the sub-geometry builder\<close>

lemma vertexAt_append_old:
  assumes "length p mod 3 = 0" "length q = length p" "ni < length p div 3"
  shows "vertexAt (p @ xs) (q @ ys) ni = vertexAt p q ni"
proof -
  from assms have "3 * ni + 2 < length p" by presburger
  with assms(2) show ?thesis
    by (simp add: vertexAt_def nth_append)
qed

lemma vertexAt_append_new:
  assumes "length p mod 3 = 0" "length q = length p"
  shows "vertexAt (p @ xyz u) (q @ xyz w) (length p div 3) = (u, w)"
proof -
  from assms have "3 * (length p div 3) = length p" by presburger
  with assms(2) show ?thesis
    by (simp add: vertexAt_def nth_append xyz_def split: prod.splits)
qed

lemma length_xyz: "length (xyz v) = 3"
  by (simp add: xyz_def split: prod.splits)

lemma geoTriangles_append_old:
  assumes "length p mod 3 = 0" "length q = length p" "\<forall>i\<in>set ix. i < length p div 3"
  shows "geoTriangles (p @ xs) (q @ ys) ix = geoTriangles p q ix"
  using assms(3)
proof (induction ix rule: triangles.induct)
  case (1 a b c rest)
  then show ?case
    using assms(1,2) by (simp add: geoTriangles_def vertexAt_append_old)
qed (simp_all add: geoTriangles_def)

lemma triangles_append:
  "length ix mod 3 = 0 \<Longrightarrow> triangles (ix @ ys) = triangles ix @ triangles ys"
  by (induction ix rule: triangles.induct) simp_all

lemma addVert_spec:
  assumes "geoInv fg st" and "addVert fg vi st = (ni, st')"
  shows "geoInv fg st' \<and> ni < length (posArr st') div 3
      \<and> vertexAt (posArr st') (normArr st') ni = sourceVertex fg vi
      \<and> idxArr st' = idxArr st
      \<and> geoTriangles (posArr st') (normArr st') (idxArr st)
          = geoTriangles (posArr st) (normArr st) (idxArr st)
      \<and> (\<forall>k<length (posArr st) div 3.
            vertexAt (posArr st') (normArr st') k = vertexAt (posArr st) (normArr st) k)
      \<and> length (posArr st) div 3 \<le> length (posArr st') div 3"
proof (cases "remap st vi")
  case None
  let ?p = "posArr st" and ?q = "normArr st"
  from assms(1) have m: "length ?p mod 3 = 0" and l: "length ?q = length ?p"
    and ix: "\<forall>i\<in>set (idxArr st). i < length ?p div 3"
    and rm: "\<And>v n. remap st v = Some n \<Longrightarrow> n < length ?p div 3 \<and> vertexAt ?p ?q n = sourceVertex fg v"
    and im: "length (idxArr st) mod 3 = 0"
    by (auto simp: geoInv_def)
  from None assms(2) have ni: "ni = length ?p div 3"
    and st': "st' = st\<lparr>posArr := ?p @ xyz (position_attr fg vi),
                   normArr := ?q @ xyz (normal_attr fg vi),
                   remap := (remap st)(vi \<mapsto> length ?p div 3)\<rparr>"
    by (auto simp: addVert_def Let_def)
  have d: "(length ?p + 3) div 3 = Suc (length ?p div 3)" by simp
  have new: "vertexAt (?p @ xyz (position_attr fg vi)) (?q @ xyz (normal_attr fg vi)) (length ?p div 3)
              = sourceVertex fg vi"
    using m l by (simp add: vertexAt_append_new sourceVertex_def)
  have old: "\<And>k. k < length ?p div 3 \<Longrightarrow>
      vertexAt (?p @ xyz (position_attr fg vi)) (?q @ xyz (normal_attr fg vi)) k = vertexAt ?p ?q k"
    using m l by (simp add: vertexAt_append_old)
  have inv': "geoInv fg st'"
    unfolding geoInv_def st'
    using m l ix im rm new old
    by (auto simp: length_xyz d less_Suc_eq)
  have tri: "geoTriangles (?p @ xyz (position_attr fg vi)) (?q @ xyz (normal_attr fg vi)) (idxArr st)
               = geoTriangles ?p ?q (idxArr st)"
    using m l ix by (rule geoTriangles_append_old)
  show ?thesis
    using inv' new old tri by (simp add: st' ni length_xyz d)
next
  case (Some n)
  with assms(2) have "ni = n" "st' = st"
    by (auto simp: addVert_def)
  with Some assms(1) show ?thesis
    by (auto simp: geoInv_def)
qed

lemma geoTriangles_snoc:
  "length ix mod 3 = 0 \<Longrightarrow>
   geoTriangles p q (ix @ [i, j, k]) = geoTriangles p q ix @ [(vertexAt p q i, vertexAt p q j, vertexAt p q k)]"
  by (simp add: geoTriangles_def triangles_append)

lemma geoLoop_step:
  assumes inv: "geoInv fg st"
    and a: "addVert fg a st = (na, st1)"
    and b: "addVert fg b st1 = (nb, st2)"
    and c: "addVert fg c st2 = (nc, st3)"
  shows "geoInv fg (st3\<lparr>idxArr := idxArr st3 @ [na, nb, nc]\<rparr>)
       \<and> geoTriangles (posArr st3) (normArr st3) (idxArr st3 @ [na, nb, nc])
           = geoTriangles (posArr st) (normArr st) (idxArr st) @ [copied fg (a, b, c)]"
proof -
  note A = addVert_spec [OF inv a]
  then have inv1: "geoInv fg st1" by simp
  note B = addVert_spec [OF inv1 b]
  then have inv2: "geoInv fg st2" by simp
  note C = addVert_spec [OF inv2 c]
  then have inv3: "geoInv fg st3" by simp
  let ?n = "\<lambda>s. length (posArr s) div 3"
  have le: "?n st \<le> ?n st1" "?n st1 \<le> ?n st2" "?n st2 \<le> ?n st3"
    using A B C by simp_all
  have ix: "idxArr st3 = idxArr st" "idxArr st2 = idxArr st" "idxArr st1 = idxArr st"
    using A B C by simp_all
  have na: "na < ?n st1" and nb: "nb < ?n st2" and nc: "nc < ?n st3"
    using A B C by simp_all
  have va: "vertexAt (posArr st3) (normArr st3) na = sourceVertex fg a"
  proof -
    have "vertexAt (posArr st3) (normArr st3) na = vertexAt (posArr st2) (normArr st2) na"
      using C na le by simp
    also have "\<dots> = vertexAt (posArr st1) (normArr st1) na"
      using B na by simp
    finally show ?thesis using A by simp
  qed
  have vb: "vertexAt (posArr st3) (normArr st3) nb = sourceVertex fg b"
  proof -
    have "vertexAt (posArr st3) (normArr st3) nb = vertexAt (posArr st2) (normArr st2) nb"
      using C nb by simp
    then show ?thesis using B by simp
  qed
  have vc: "vertexAt (posArr st3) (normArr st3) nc = sourceVertex fg c"
    using C by simp
  have old: "geoTriangles (posArr st3) (normArr st3) (idxArr st)
               = geoTriangles (posArr st) (normArr st) (idxArr st)"
  proof -
    have "geoTriangles (posArr st3) (normArr st3) (idxArr st)
            = geoTriangles (posArr st2) (normArr st2) (idxArr st)"
      using C ix by simp
    also have "\<dots> = geoTriangles (posArr st1) (normArr st1) (idxArr st)"
      using B ix by simp
    also have "\<dots> = geoTriangles (posArr st) (normArr st) (idxArr st)"
      using A by simp
    finally show ?thesis .
  qed
  from inv3 have m: "length (idxArr st) mod 3 = 0"
    by (simp add: geoInv_def ix)
  have "geoInv fg (st3\<lparr>idxArr := idxArr st3 @ [na, nb, nc]\<rparr>)"
    using inv3 na nb nc le by (auto simp: geoInv_def)
  moreover have "geoTriangles (posArr st3) (normArr st3) (idxArr st3 @ [na, nb, nc])
           = geoTriangles (posArr st) (normArr st) (idxArr st) @ [copied fg (a, b, c)]"
    using m by (simp add: ix geoTriangles_snoc old va vb vc copied_def)
  ultimately show ?thesis by simp
qed

lemma geoLoop_spec:
  assumes "geoInv fg st" and "length idx mod 3 = 0"
  shows "geoInv fg (geoLoop fg vam t idx st)
       \<and> geoTriangles (posArr (geoLoop fg vam t idx st)) (normArr (geoLoop fg vam t idx st))
            (idxArr (geoLoop fg vam t idx st))
           = geoTriangles (posArr st) (normArr st) (idxArr st)
             @ map (copied fg) (filter (majority vam t) (triangles idx))"
  using assms
proof (induction idx arbitrary: st rule: triangles.induct)
  case (1 a b c rest)
  from "1.prems"(2) have rest: "length rest mod 3 = 0" by simp
  show ?case
  proof (cases "2 \<le> score vam t a b c")
    case True
    obtain na st1 where a: "addVert fg a st = (na, st1)" by (cases "addVert fg a st")
    obtain nb st2 where b: "addVert fg b st1 = (nb, st2)" by (cases "addVert fg b st1")
    obtain nc st3 where c: "addVert fg c st2 = (nc, st3)" by (cases "addVert fg c st2")
    let ?st4 = "st3\<lparr>idxArr := idxArr st3 @ [na, nb, nc]\<rparr>"
    have step: "geoLoop fg vam t (a # b # c # rest) st = geoLoop fg vam t rest ?st4"
      using True by (simp add: a b c)
    from geoLoop_step [OF "1.prems"(1) a b c]
    have inv4: "geoInv fg ?st4"
      and tri: "geoTriangles (posArr ?st4) (normArr ?st4) (idxArr ?st4)
                  = geoTriangles (posArr st) (normArr st) (idxArr st) @ [copied fg (a, b, c)]"
      by simp_all
    from "1.IH" [OF inv4 rest] show ?thesis
      unfolding step using True by (simp only: tri) (simp add: majority_def)
  next
    case False
    have step: "geoLoop fg vam t (a # b # c # rest) st = geoLoop fg vam t rest st"
      using False by simp
    from "1.IH" [OF "1.prems"(1) rest] show ?thesis
      unfolding step using False by (simp add: majority_def)
  qed
qed simp_all

lemma collect_Inr: "collect (map (\<lambda>i. Inr (f i)) xs) = Inr (map f xs)"
  by (induction xs) simp_all

lemma geoInv_initial: "geoInv fg \<lparr>posArr = [], normArr = [], idxArr = [], remap = Map.empty\<rparr>"
  by (simp add: geoInv_def)

lemma buildRegionGeo_spec:
  assumes "index_attr fg = Some idx" and "length idx mod 3 = 0"
  shows "\<exists>g. buildRegionGeo fg vam t = Inr g
            \<and> trianglesOf g = map (copied fg) (filter (majority vam t) (triangles idx))"
  using geoLoop_spec [OF geoInv_initial assms(2), of fg vam t] assms(1)
  by (simp add: buildRegionGeo_def trianglesOf_def geoOf_def geoTriangles_def)

lemma regionGeos_spec:
  assumes "index_attr fg = Some idx"
  shows "regionGeos fg vam
           = Inr (map (\<lambda>ri. geoOf (geoLoop fg vam (int ri) idx
                        \<lparr>posArr = [], normArr = [], idxArr = [], remap = Map.empty\<rparr>))
                    [0..<length REGIONS])"
  using assms by (simp add: regionGeos_def buildRegionGeo_def collect_Inr)

lemma majority_iff:
  "majority vam t (a, b, c) \<longleftrightarrow>
     (classAt vam a = Some t \<and> classAt vam b = Some t)
     \<or> (classAt vam a = Some t \<and> classAt vam c = Some t)
     \<or> (classAt vam b = Some t \<and> classAt vam c = Some t)"
  by (auto simp: majority_def score_def)

lemma majority_unique: "majority vam t tri \<Longrightarrow> majority vam t' tri \<Longrightarrow> t = t'"
  by (cases tri) (auto simp: majority_iff)

lemma majority_none:
  "classAt vam a \<noteq> classAt vam b \<Longrightarrow> classAt vam b \<noteq> classAt vam c \<Longrightarrow>
   classAt vam a \<noteq> classAt vam c \<Longrightarrow> \<not> majority vam t (a, b, c)"
  by (auto simp: majority_iff)

text \<open>
  Claim C4. For a geometry whose index buffer holds whole triangles, the sub-geometry
  built for region \<open>ri\<close> consists of copies of exactly those triangles of the buffer,
  in the buffer's order, of whose three vertices at least two are classified to anchor
  \<open>ri\<close>. A triangle with such a majority for one region has it for no other, so it is
  in exactly one region's sub-geometry; a triangle whose three vertices have three
  different classifications has a majority for no target and is in none.
\<close>

theorem region_subgeometry_C4:
  assumes "index_attr fg = Some idx" and "length idx mod 3 = 0" and "ri < length REGIONS"
  shows "(\<exists>gs. regionGeos fg vam = Inr gs \<and> length gs = length REGIONS
            \<and> buildRegionGeo fg vam (int ri) = Inr (gs ! ri)
            \<and> trianglesOf (gs ! ri)
                = map (copied fg) (filter (majority vam (int ri)) (triangles idx)))
       \<and> (\<forall>a b c. majority vam (int ri) (a, b, c) \<longleftrightarrow>
             (classAt vam a = Some (int ri) \<and> classAt vam b = Some (int ri))
             \<or> (classAt vam a = Some (int ri) \<and> classAt vam c = Some (int ri))
             \<or> (classAt vam b = Some (int ri) \<and> classAt vam c = Some (int ri)))
       \<and> (\<forall>tri ri'. majority vam (int ri) tri \<and> ri' \<noteq> ri \<longrightarrow> \<not> majority vam (int ri') tri)
       \<and> (\<forall>a b c t. classAt vam a \<noteq> classAt vam b \<and> classAt vam b \<noteq> classAt vam c
              \<and> classAt vam a \<noteq> classAt vam c \<longrightarrow> \<not> majority vam t (a, b, c))"
proof -
  let ?G = "\<lambda>ri. geoOf (geoLoop fg vam (int ri) idx
                        \<lparr>posArr = [], normArr = [], idxArr = [], remap = Map.empty\<rparr>)"
  have all: "regionGeos fg vam = Inr (map ?G [0..<length REGIONS])"
    using assms(1) by (rule regionGeos_spec)
  have one: "buildRegionGeo fg vam (int ri) = Inr (?G ri)"
    using assms(1) by (simp add: buildRegionGeo_def)
  from buildRegionGeo_spec [OF assms(1,2), of vam "int ri"] one
  have tri: "trianglesOf (?G ri) = map (copied fg) (filter (majority vam (int ri)) (triangles idx))"
    by simp
  have first: "\<exists>gs. regionGeos fg vam = Inr gs \<and> length gs = length REGIONS
            \<and> buildRegionGeo fg vam (int ri) = Inr (gs ! ri)
            \<and> trianglesOf (gs ! ri)
                = map (copied fg) (filter (majority vam (int ri)) (triangles idx))"
    using all one tri assms(3)
    by (intro exI [of _ "map ?G [0..<length REGIONS]"]) simp
  have iff: "\<forall>a b c. majority vam (int ri) (a, b, c) \<longleftrightarrow>
             (classAt vam a = Some (int ri) \<and> classAt vam b = Some (int ri))
             \<or> (classAt vam a = Some (int ri) \<and> classAt vam c = Some (int ri))
             \<or> (classAt vam b = Some (int ri) \<and> classAt vam c = Some (int ri))"
    by (intro allI) (rule majority_iff)
  have uniq: "\<forall>tri ri'. majority vam (int ri) tri \<and> ri' \<noteq> ri \<longrightarrow> \<not> majority vam (int ri') tri"
  proof (intro allI impI notI)
    fix tri ri'
    assume h: "majority vam (int ri) tri \<and> ri' \<noteq> ri" and h': "majority vam (int ri') tri"
    from h h' have "int ri = int ri'"
      by (blast intro: majority_unique)
    with h show False by simp
  qed
  have none: "\<forall>a b c t. classAt vam a \<noteq> classAt vam b \<and> classAt vam b \<noteq> classAt vam c
              \<and> classAt vam a \<noteq> classAt vam c \<longrightarrow> \<not> majority vam t (a, b, c)"
    using majority_none [of vam] by blast
  from first iff uniq none show ?thesis
    by (intro conjI)
qed

theorem region_subgeometry_C4_witness:
  "buildRegionGeo
       \<lparr>position_attr = (\<lambda>v. (real v, 0, 0)), normal_attr = (\<lambda>v. (0, 0, 1)),
        index_attr = Some [0, 1, 2, 1, 2, 3, 3, 4, 5]\<rparr> [0, 0, 1, 1, 2, 3] 1
     = Inr \<lparr>posArr = [1, 0, 0, 2, 0, 0, 3, 0, 0], normArr = [0, 0, 1, 0, 0, 1, 0, 0, 1],
            idxArr = [0, 1, 2]\<rparr>
   \<and> filter (majority [0, 0, 1, 1, 2, 3] 1) (triangles [0, 1, 2, 1, 2, 3, 3, 4, 5]) = [(1, 2, 3)]
   \<and> trianglesOf \<lparr>posArr = [1, 0, 0, 2, 0, 0, 3, 0, 0], normArr = [0, 0, 1, 0, 0, 1, 0, 0, 1],
            idxArr = [0, 1, 2]\<rparr>
     = [(((1, 0, 0), (0, 0, 1)), ((2, 0, 0), (0, 0, 1)), ((3, 0, 0), (0, 0, 1)))]"
proof -
  let ?fg = "\<lparr>position_attr = (\<lambda>v. (real v, 0, 0)), normal_attr = (\<lambda>v. (0, 0, 1)),
        index_attr = Some [0, 1, 2, 1, 2, 3, 3, 4, 5]\<rparr>"
  let ?idx = "[0, 1, 2, 1, 2, 3, 3, 4, 5] :: nat list"
  let ?vam = "[0, 0, 1, 1, 2, 3] :: int list"
  let ?g = "\<lparr>posArr = [1, 0, 0, 2, 0, 0, 3, 0, 0], normArr = [0, 0, 1, 0, 0, 1, 0, 0, 1],
            idxArr = [0, 1, 2]\<rparr>"
  have h1: "index_attr ?fg = Some ?idx" and h2: "length ?idx mod 3 = 0"
    and h3: "Suc 0 < length REGIONS"
    by (simp_all add: length_REGIONS)
  from region_subgeometry_C4 [OF h1 h2 h3, of ?vam]
  obtain gs where gs: "buildRegionGeo ?fg ?vam (int (Suc 0)) = Inr (gs ! Suc 0)"
    "trianglesOf (gs ! Suc 0) = map (copied ?fg) (filter (majority ?vam (int (Suc 0))) (triangles ?idx))"
    by (elim conjE exE)
  have ev: "buildRegionGeo ?fg ?vam 1 = Inr ?g"
    by (simp add: buildRegionGeo_def score_def classAt_def addVert_def geoOf_def xyz_def)
  have flt: "filter (majority ?vam 1) (triangles ?idx) = [(1, 2, 3)]"
    by (simp add: majority_def score_def classAt_def)
  from gs ev have "gs ! Suc 0 = ?g"
    by simp
  with gs(2) flt have "trianglesOf ?g = [copied ?fg (1, 2, 3)]"
    by simp
  with ev flt show ?thesis
    by (simp add: copied_def sourceVertex_def)
qed

section \<open>Properties of the heat map\<close>

lemma lerp_0: "lerp c1 c2 0 = c1" and lerp_1: "lerp c1 c2 1 = c2"
  by (simp_all add: lerp_def split: prod.splits)

lemma intensityToColor_bands:
  assumes "0 \<le> x" "x \<le> 10"
  shows "intensityToColor x =
     (if x / 10 < 0.25 then lerp (Color ''#93c5fd'') (Color ''#6ee7b7'') ((x / 10) / 0.25)
      else if x / 10 < 0.5 then lerp (Color ''#6ee7b7'') (Color ''#fde047'') ((x / 10 - 0.25) / 0.25)
      else if x / 10 < 0.75 then lerp (Color ''#fde047'') (Color ''#fb923c'') ((x / 10 - 0.5) / 0.25)
      else lerp (Color ''#fb923c'') (Color ''#ef4444'') ((x / 10 - 0.75) / 0.25))"
proof -
  from assms have "max 0 (min 1 (x / 10)) = x / 10"
    by (simp add: max_def min_def)
  then show ?thesis
    by (simp only: intensityToColor_def Let_def)
qed

lemma vertexColor_heat:
  assumes "clickable_vr regionInfo" "intensityMap (name regionInfo) = Some x" "0 < x"
  shows "vertexColor selected hov intensityMap regionInfo False = intensityToColor x"
  using assms by (simp add: vertexColor_def)

lemma coloredGeometry_spec:
  assumes "\<forall>r\<in>set vRegions. 0 \<le> r \<and> nat r < length allRegions"
  shows "coloredGeometry allRegions vRegions boundary selected hov ris =
           Inr (map (\<lambda>i. vertexColor selected hov (intensityMapOf ris)
                            (allRegions ! nat (vRegions ! i)) (boundaryAt boundary i))
                  [0..<length vRegions])"
proof -
  have "map (\<lambda>i. case regionInfoAt allRegions vRegions i of
                    None \<Rightarrow> Inl TypeError
                  | Some (rIdx, regionInfo) \<Rightarrow>
                      Inr (vertexColor selected hov (intensityMapOf ris) regionInfo
                             (boundaryAt boundary i)))
            [0..<length vRegions]
        = map (\<lambda>i. Inr (vertexColor selected hov (intensityMapOf ris)
                            (allRegions ! nat (vRegions ! i)) (boundaryAt boundary i)))
            [0..<length vRegions]"
    using assms by (intro map_cong refl) (simp add: regionInfoAt_Some)
  then show ?thesis
    by (simp only: coloredGeometry_def Let_def collect_Inr)
qed

text \<open>
  Claim C6, as the code has it. Let a vertex be classified to a clickable region for
  which the intensity \<open>x\<close> is supplied. If \<open>0 < x \<le> 10\<close> and the vertex is no boundary
  vertex, its colour is \<open>intensityToColor x\<close> whatever the selection and the hovered
  region are: the ramp blue, green, yellow, orange, red, interpolated linearly within
  the quarter of \<open>x / 10\<close> (bands meeting at 0.25, 0.5 and 0.75). A boundary vertex
  has the boundary colour, and with \<open>x \<le> 0\<close> the vertex is coloured as if no
  intensity were supplied.
\<close>

theorem heatmap_color_C6:
  assumes "\<forall>r\<in>set vRegions. 0 \<le> r \<and> nat r < length allRegions"
    and "i < length vRegions"
    and "regionInfo = allRegions ! nat (vRegions ! i)"
    and "clickable_vr regionInfo"
    and "intensityMapOf regionIntensities (name regionInfo) = Some x"
  shows "\<exists>colors.
           coloredGeometry allRegions vRegions boundary selected hov regionIntensities = Inr colors
           \<and> length colors = length vRegions
           \<and> (0 < x \<and> x \<le> 10 \<and> \<not> boundaryAt boundary i \<longrightarrow>
                colors ! i = intensityToColor x
                \<and> intensityToColor x =
                   (if x / 10 < 0.25 then
                      lerp (Color ''#93c5fd'') (Color ''#6ee7b7'') ((x / 10) / 0.25)
                    else if x / 10 < 0.5 then
                      lerp (Color ''#6ee7b7'') (Color ''#fde047'') ((x / 10 - 0.25) / 0.25)
                    else if x / 10 < 0.75 then
                      lerp (Color ''#fde047'') (Color ''#fb923c'') ((x / 10 - 0.5) / 0.25)
                    else lerp (Color ''#fb923c'') (Color ''#ef4444'') ((x / 10 - 0.75) / 0.25)))
           \<and> (boundaryAt boundary i \<longrightarrow> colors ! i = boundaryColor)
           \<and> (x \<le> 0 \<and> \<not> boundaryAt boundary i \<longrightarrow>
                colors ! i = vertexColor selected hov Map.empty regionInfo False)"
proof -
  let ?cs = "map (\<lambda>i. vertexColor selected hov (intensityMapOf regionIntensities)
                            (allRegions ! nat (vRegions ! i)) (boundaryAt boundary i))
                  [0..<length vRegions]"
  have run: "coloredGeometry allRegions vRegions boundary selected hov regionIntensities = Inr ?cs"
    using assms(1) by (rule coloredGeometry_spec)
  have at: "?cs ! i = vertexColor selected hov (intensityMapOf regionIntensities) regionInfo
                        (boundaryAt boundary i)"
    using assms(2,3) by simp
  have heat: "0 < x \<Longrightarrow> \<not> boundaryAt boundary i \<Longrightarrow> ?cs ! i = intensityToColor x"
    unfolding at using assms(4,5) by (simp add: vertexColor_def)
  have bands: "0 < x \<Longrightarrow> x \<le> 10 \<Longrightarrow> intensityToColor x =
                   (if x / 10 < 0.25 then
                      lerp (Color ''#93c5fd'') (Color ''#6ee7b7'') ((x / 10) / 0.25)
                    else if x / 10 < 0.5 then
                      lerp (Color ''#6ee7b7'') (Color ''#fde047'') ((x / 10 - 0.25) / 0.25)
                    else if x / 10 < 0.75 then
                      lerp (Color ''#fde047'') (Color ''#fb923c'') ((x / 10 - 0.5) / 0.25)
                    else lerp (Color ''#fb923c'') (Color ''#ef4444'') ((x / 10 - 0.75) / 0.25))"
    using intensityToColor_bands [of x] by simp
  have seam: "boundaryAt boundary i \<Longrightarrow> ?cs ! i = boundaryColor"
    unfolding at using assms(4) by (simp add: vertexColor_def)
  have zero: "x \<le> 0 \<Longrightarrow> \<not> boundaryAt boundary i \<Longrightarrow>
                ?cs ! i = vertexColor selected hov Map.empty regionInfo False"
    unfolding at using assms(4,5) by (simp add: vertexColor_def)
  have len: "length ?cs = length vRegions"
    by simp
  from run len heat bands seam zero show ?thesis
    by (intro exI [of _ ?cs] conjI impI) blast+
qed

theorem heatmap_color_C6_witness:
  "coloredGeometry ALL_VORONOI_REGIONS [0] [False] [''Forehead''] None
       (Some [\<lparr>region_ri = ''Forehead'', intensity_ri = 5\<rparr>])
     = Inr [Color ''#fde047'']
   \<and> intensityToColor 5 = Color ''#fde047''"
proof -
  let ?ris = "Some [\<lparr>region_ri = ''Forehead'', intensity_ri = 5\<rparr>]"
  have h1: "\<forall>r\<in>set [0::int]. 0 \<le> r \<and> nat r < length ALL_VORONOI_REGIONS"
    by (simp add: length_ALL_VORONOI_REGIONS)
  have h2: "(0::nat) < length [0::int]"
    by simp
  have h4: "clickable_vr (ALL_VORONOI_REGIONS ! nat ([0] ! 0))"
    by (simp add: ALL_VORONOI_REGIONS_def REGIONS_vr_def)
  have h5: "intensityMapOf ?ris (name (ALL_VORONOI_REGIONS ! nat ([0] ! 0))) = Some 5"
    by (simp add: intensityMapOf_def ALL_VORONOI_REGIONS_def REGIONS_vr_def)
  from heatmap_color_C6 [OF h1 h2 refl h4 h5, of "[False]" "[''Forehead'']" None]
  obtain colors where c: "coloredGeometry ALL_VORONOI_REGIONS [0] [False] [''Forehead''] None ?ris
                            = Inr colors"
    "length colors = 1" "colors ! 0 = intensityToColor 5"
    by (auto simp: boundaryAt_def)
  have "intensityToColor 5 = Color ''#fde047''"
    by (simp add: intensityToColor_def lerp_0)
  moreover from c(2,3) have "colors = [intensityToColor 5]"
    by (cases colors) simp_all
  ultimately show ?thesis
    using c(1) by simp
qed

text \<open>
  Claim C6 as stated covers the intensity 0 and every vertex of the region. A supplied
  intensity of 0 leaves the selection colour on a selected region, where the ramp would
  give its first colour; and a boundary vertex keeps the boundary colour, where the ramp
  would give yellow for the intensity 5.
\<close>

theorem heatmap_color_C6_counterexample:
  "coloredGeometry ALL_VORONOI_REGIONS [0] [False] [''Forehead''] None
       (Some [\<lparr>region_ri = ''Forehead'', intensity_ri = 0\<rparr>])
     = Inr [Color ''#fca5a5'']
   \<and> intensityToColor 0 = Color ''#93c5fd''
   \<and> Color ''#fca5a5'' \<noteq> Color ''#93c5fd''
   \<and> coloredGeometry ALL_VORONOI_REGIONS [0] [True] [] None
       (Some [\<lparr>region_ri = ''Forehead'', intensity_ri = 5\<rparr>])
     = Inr [Color ''#9ca3af'']
   \<and> intensityToColor 5 = Color ''#fde047''
   \<and> Color ''#9ca3af'' \<noteq> Color ''#fde047''"
proof -
  have "coloredGeometry ALL_VORONOI_REGIONS [0] [False] [''Forehead''] None
       (Some [\<lparr>region_ri = ''Forehead'', intensity_ri = 0\<rparr>])
     = Inr [Color ''#fca5a5'']"
    by (simp add: coloredGeometry_def regionInfoAt_def boundaryAt_def vertexColor_def
          intensityMapOf_def ALL_VORONOI_REGIONS_def REGIONS_vr_def selectedColor_def)
  moreover have "coloredGeometry ALL_VORONOI_REGIONS [0] [True] [] None
       (Some [\<lparr>region_ri = ''Forehead'', intensity_ri = 5\<rparr>])
     = Inr [Color ''#9ca3af'']"
    by (simp add: coloredGeometry_def regionInfoAt_def boundaryAt_def vertexColor_def
          intensityMapOf_def ALL_VORONOI_REGIONS_def REGIONS_vr_def boundaryColor_def)
  moreover have "intensityToColor 0 = Color ''#93c5fd''" "intensityToColor 5 = Color ''#fde047''"
    by (simp_all add: intensityToColor_def lerp_0)
  moreover have "Color ''#fca5a5'' \<noteq> Color ''#93c5fd''" "Color ''#9ca3af'' \<noteq> Color ''#fde047''"
    by (simp_all add: hexDigit_def)
  ultimately show ?thesis
    by (intro conjI)
qed

section \<open>Properties of the region frequency\<close>

lemma map_fst_mapSet_old: "k \<in> fst ` set m \<Longrightarrow> map fst (mapSet k v m) = map fst m"
  by (induction m) force+

lemma map_fst_mapSet_new: "k \<notin> fst ` set m \<Longrightarrow> map fst (mapSet k v m) = map fst m @ [k]"
  by (induction m) auto

lemma map_fst_mapSet:
  "map fst (mapSet k v m) = (if k \<in> fst ` set m then map fst m else map fst m @ [k])"
  by (simp add: map_fst_mapSet_old map_fst_mapSet_new)

lemma map_of_mapSet: "map_of (mapSet k v m) = (map_of m)(k \<mapsto> v)"
  by (induction m) (auto simp: fun_eq_iff)

lemma keys_addLog:
  "fst ` set (addLog r m) = insert (region_name r) (fst ` set m)"
proof -
  have "set (map fst (addLog r m)) = insert (region_name r) (set (map fst m))"
    by (auto simp: addLog_def Let_def map_fst_mapSet)
  then show ?thesis by simp
qed

lemma distinct_addLog:
  "distinct (map fst m) \<Longrightarrow> distinct (map fst (addLog r m))"
  by (auto simp: addLog_def Let_def map_fst_mapSet)

lemma tallyOf_addLog:
  "tallyOf (addLog r m) k =
     (if k = region_name r then (fst (tallyOf m k) + 1, snd (tallyOf m k) + intensity r)
      else tallyOf m k)"
  by (auto simp: tallyOf_def addLog_def Let_def map_of_mapSet split: option.splits)

lemma fold_addLog:
  "distinct (map fst m) \<Longrightarrow>
   distinct (map fst (fold addLog logs m))
   \<and> set (map fst (fold addLog logs m)) = set (map fst m) \<union> region_name ` set logs
   \<and> (\<forall>k. tallyOf (fold addLog logs m) k =
          (fst (tallyOf m k) + length (occurrences k logs),
           snd (tallyOf m k) + sum_list (map intensity (occurrences k logs))))"
proof (induction logs arbitrary: m)
  case Nil
  then show ?case by (simp add: occurrences_def)
next
  case (Cons r logs)
  from Cons.prems have "distinct (map fst (addLog r m))"
    by (rule distinct_addLog)
  from Cons.IH [OF this] show ?case
    by (auto simp: keys_addLog tallyOf_addLog occurrences_def)
qed

lemma fold_sessions:
  "fold (\<lambda>session m. fold addLog (regions session) m) ss m
     = fold addLog (concat (map regions ss)) m"
  by (induction ss arbitrary: m) simp_all

lemma regionMap_entry:
  assumes "(k, d) \<in> set (fold addLog logs [])"
  shows "k \<in> region_name ` set logs
       \<and> count_t d = length (occurrences k logs)
       \<and> totalIntensity d = sum_list (map intensity (occurrences k logs))
       \<and> 0 < count_t d"
proof -
  let ?m = "fold addLog logs []"
  from fold_addLog [of "[]" logs]
  have dist: "distinct (map fst ?m)"
    and keys: "set (map fst ?m) = region_name ` set logs"
    and tal: "\<And>k. tallyOf ?m k
        = (length (occurrences k logs), sum_list (map intensity (occurrences k logs)))"
    by (simp_all add: tallyOf_def)
  from assms dist have "map_of ?m k = Some d"
    by simp
  with tal [of k] have d: "count_t d = length (occurrences k logs)"
      "totalIntensity d = sum_list (map intensity (occurrences k logs))"
    by (simp_all add: tallyOf_def)
  from assms keys have k: "k \<in> region_name ` set logs"
    by force
  then have "occurrences k logs \<noteq> []"
    by (auto simp: occurrences_def filter_empty_conv)
  with d k show ?thesis
    by simp
qed

lemma Math_round_near: "\<bar>Math_round y - y\<bar> \<le> 1 / 2"
  unfolding Math_round_def by linarith

lemma computeRegionFrequency_alt:
  "computeRegionFrequency ss =
     sort_key (\<lambda>e. - int (count e)) (map frequencyOf (fold addLog (allLogs ss) []))"
proof -
  have "frequencyOf = (\<lambda>(regionName, data).
                   \<lparr>region = regionName, count = count_t data,
                    avgIntensity =
                      (if count_t data > 0
                       then Math_round ((totalIntensity data / real (count_t data)) * 10) / 10
                       else 0)\<rparr>)"
    by (simp add: fun_eq_iff frequencyOf_def)
  then show ?thesis
    by (simp add: computeRegionFrequency_def fold_sessions allLogs_def)
qed

lemma region_frequencyOf: "map region (map frequencyOf m) = map fst m"
  by (induction m) (auto simp: frequencyOf_def)

lemma Math_round_int: "\<exists>k::int. Math_round y / 10 = real_of_int k / 10"
  by (auto simp: Math_round_def)

lemma Math_round_tenth: "\<bar>Math_round (y * 10) / 10 - y\<bar> \<le> 1 / 20"
  using Math_round_near [of "y * 10"] by (simp add: field_simps abs_le_iff)

text \<open>
  Claim C9. For every list of sessions the result has exactly one entry for each region
  name logged in some session and no other entry. The entry's count is the number of
  times the name is logged over all sessions, and its average is the mean intensity of
  these logs rounded to one decimal place: a whole number of tenths, obtained by
  \<^verbatim>\<open>Math.round\<close> and at most 0.05 from the mean. The entries are in non-increasing
  order of count, and no sessions give no entries.
\<close>

theorem region_frequency_C9:
  "distinct (map region (computeRegionFrequency ss))
   \<and> set (map region (computeRegionFrequency ss)) = region_name ` set (allLogs ss)
   \<and> (\<forall>e\<in>set (computeRegionFrequency ss).
         count e = length (occurrences (region e) (allLogs ss))
         \<and> 0 < count e
         \<and> avgIntensity e
             = Math_round (mean (map intensity (occurrences (region e) (allLogs ss))) * 10) / 10
         \<and> (\<exists>k::int. avgIntensity e = real_of_int k / 10)
         \<and> \<bar>avgIntensity e - mean (map intensity (occurrences (region e) (allLogs ss)))\<bar> \<le> 1 / 20)
   \<and> sorted_wrt (\<lambda>a b. count b \<le> count a) (computeRegionFrequency ss)
   \<and> computeRegionFrequency [] = []"
proof -
  let ?logs = "allLogs ss"
  let ?m = "fold addLog ?logs []"
  let ?K = "\<lambda>e. - int (count e)"
  let ?out = "computeRegionFrequency ss"
  define xs where "xs = map frequencyOf ?m"
  have out: "?out = sort_key ?K xs"
    unfolding xs_def by (rule computeRegionFrequency_alt)
  from fold_addLog [of "[]" ?logs]
  have dist_m: "distinct (map fst ?m)" and keys: "set (map fst ?m) = region_name ` set ?logs"
    by simp_all
  have set_out: "set ?out = set xs"
    by (simp add: out)
  have regions_xs: "map region xs = map fst ?m"
    unfolding xs_def by (rule region_frequencyOf)
  have dist_xs: "distinct (map region xs)"
    using dist_m by (simp only: regions_xs)
  then have "distinct xs" and "inj_on region (set xs)"
    by (simp_all add: distinct_map)
  then have 1: "distinct (map region ?out)"
    unfolding distinct_map by (simp add: out)
  have 2: "set (map region ?out) = region_name ` set ?logs"
  proof -
    have "set (map region ?out) = region ` set xs"
      by (simp add: set_out)
    also have "\<dots> = set (map region xs)"
      by simp
    also have "\<dots> = region_name ` set ?logs"
      using keys by (simp only: regions_xs)
    finally show ?thesis .
  qed
  have 3: "\<forall>e\<in>set ?out.
         count e = length (occurrences (region e) ?logs)
         \<and> 0 < count e
         \<and> avgIntensity e = Math_round (mean (map intensity (occurrences (region e) ?logs)) * 10) / 10
         \<and> (\<exists>k::int. avgIntensity e = real_of_int k / 10)
         \<and> \<bar>avgIntensity e - mean (map intensity (occurrences (region e) ?logs))\<bar> \<le> 1 / 20"
  proof
    fix e assume "e \<in> set ?out"
    then obtain k d where kd: "(k, d) \<in> set ?m" and e: "e = frequencyOf (k, d)"
      by (auto simp: set_out xs_def)
    from regionMap_entry [OF kd]
    have c: "count_t d = length (occurrences k ?logs)"
      and t: "totalIntensity d = sum_list (map intensity (occurrences k ?logs))"
      and p: "0 < count_t d"
      by blast+
    have r: "region e = k" and n: "count e = count_t d"
      and a: "avgIntensity e = Math_round ((totalIntensity d / real (count_t d)) * 10) / 10"
      using p by (simp_all add: e frequencyOf_def)
    have m: "totalIntensity d / real (count_t d) = mean (map intensity (occurrences k ?logs))"
      by (simp add: mean_def c t)
    show "count e = length (occurrences (region e) ?logs)
         \<and> 0 < count e
         \<and> avgIntensity e = Math_round (mean (map intensity (occurrences (region e) ?logs)) * 10) / 10
         \<and> (\<exists>k::int. avgIntensity e = real_of_int k / 10)
         \<and> \<bar>avgIntensity e - mean (map intensity (occurrences (region e) ?logs))\<bar> \<le> 1 / 20"
      unfolding r n a m using c p Math_round_int Math_round_tenth by simp
  qed
  have "sorted (map ?K ?out)"
    unfolding out by (rule sorted_sort_key)
  then have 4: "sorted_wrt (\<lambda>a b. count b \<le> count a) ?out"
    by (simp add: sorted_map)
  have 5: "computeRegionFrequency [] = []"
    by (simp add: computeRegionFrequency_def)
  from 1 2 3 4 5 show ?thesis
    by (intro conjI)
qed

theorem region_frequency_C9_witness:
  "computeRegionFrequency
     [\<lparr>start_time = ''a'', end_time = ''b'', notes_s = ''n'',
       regions = [\<lparr>region_name = ''Forehead'', intensity = 5\<rparr>,
                  \<lparr>region_name = ''Neck base'', intensity = 3\<rparr>],
       id_session = ''1'', user_id = ''u''\<rparr>,
      \<lparr>start_time = ''a'', end_time = ''b'', notes_s = ''n'',
       regions = [\<lparr>region_name = ''Neck base'', intensity = 8\<rparr>,
                  \<lparr>region_name = ''Neck base'', intensity = 8\<rparr>],
       id_session = ''2'', user_id = ''u''\<rparr>]
    = [\<lparr>region = ''Neck base'', count = 3, avgIntensity = 6.3\<rparr>,
       \<lparr>region = ''Forehead'', count = 1, avgIntensity = 5\<rparr>]
   \<and> sorted_wrt (\<lambda>a b. count b \<le> count a)
       (computeRegionFrequency
         [\<lparr>start_time = ''a'', end_time = ''b'', notes_s = ''n'',
       regions = [\<lparr>region_name = ''Forehead'', intensity = 5\<rparr>,
                  \<lparr>region_name = ''Neck base'', intensity = 3\<rparr>],
       id_session = ''1'', user_id = ''u''\<rparr>,
      \<lparr>start_time = ''a'', end_time = ''b'', notes_s = ''n'',
       regions = [\<lparr>region_name = ''Neck base'', intensity = 8\<rparr>,
                  \<lparr>region_name = ''Neck base'', intensity = 8\<rparr>],
       id_session = ''2'', user_id = ''u''\<rparr>])"
proof -
  let ?ss = "[\<lparr>start_time = ''a'', end_time = ''b'', notes_s = ''n'',
       regions = [\<lparr>region_name = ''Forehead'', intensity = 5\<rparr>,
                  \<lparr>region_name = ''Neck base'', intensity = 3\<rparr>],
       id_session = ''1'', user_id = ''u''\<rparr>,
      \<lparr>start_time = ''a'', end_time = ''b'', notes_s = ''n'',
       regions = [\<lparr>region_name = ''Neck base'', intensity = 8\<rparr>,
                  \<lparr>region_name = ''Neck base'', intensity = 8\<rparr>],
       id_session = ''2'', user_id = ''u''\<rparr>] :: MigraineSession list"
  have ev: "computeRegionFrequency ?ss
    = [\<lparr>region = ''Neck base'', count = 3, avgIntensity = 6.3\<rparr>,
       \<lparr>region = ''Forehead'', count = 1, avgIntensity = 5\<rparr>]"
    by (simp add: computeRegionFrequency_def addLog_def Math_round_def)
  from region_frequency_C9 [of ?ss]
  have "sorted_wrt (\<lambda>a b. count b \<le> count a) (computeRegionFrequency ?ss)"
    by (elim conjE)
  with ev show ?thesis
    by (intro conjI)
qed

end
